theory Spec2Isabelle
  imports Main
begin

section \<open>Python values used by the service\<close>

text \<open>
  The body of a request is a JSON object. A number with a fractional part is a float:
  \<open>JFloat m e\<close> is the double of value \<open>m * 2 ^ e\<close>, so 2010.5 is \<open>JFloat 4021 (- 1)\<close>.
\<close>

datatype json = JNull | JBool bool | JInt int | JFloat int int | JStr string
  | JList "json list" | JObj "(string \<times> json) list"

type_synonym payload = "string \<rightharpoonup> json"

text \<open>A point in time, as seconds since the epoch.\<close>

datatype datetime = Datetime int

subsection \<open>\<open>str\<close> of an integer\<close>

text \<open>
  An f-string renders an \<open>int\<close> as \<open>str\<close> does: decimal digits, most significant
  first, no leading zero, a minus sign for a negative number.
\<close>

definition digit_char :: "nat \<Rightarrow> char" where
  "digit_char d = ''0123456789'' ! d"

fun str_nat :: "nat \<Rightarrow> string" where
  "str_nat n = (if n < 10 then [digit_char n] else str_nat (n div 10) @ [digit_char (n mod 10)])"

declare str_nat.simps [simp del]

definition str_int :: "int \<Rightarrow> string" where
  "str_int i = (if i < 0 then CHR ''-'' # str_nat (nat (- i)) else str_nat (nat i))"

text \<open>
  Reading a string of decimal digits back, to say what a decimal rendering is: the
  digits of a number, with no leading zero unless the number is a single digit, after a
  minus sign for a negative number.
\<close>

definition digit_value :: "char \<Rightarrow> nat" where
  "digit_value c = of_char c - 48"

definition read_decimal :: "string \<Rightarrow> nat" where
  "read_decimal s = foldl (\<lambda>a c. 10 * a + digit_value c) 0 s"

definition canonical_decimal :: "string \<Rightarrow> bool" where
  "canonical_decimal s =
     (s \<noteq> [] \<and> set s \<subseteq> set ''0123456789'' \<and> (length s = 1 \<or> hd s \<noteq> CHR ''0''))"

definition read_int :: "string \<Rightarrow> int" where
  "read_int s =
     (case s of
        [] \<Rightarrow> 0
      | c # t \<Rightarrow> if c = CHR ''-'' then - int (read_decimal t) else int (read_decimal s))"

subsection \<open>\<open>random.randint\<close>\<close>

text \<open>
  \<open>random.randint(a, b)\<close> returns an integer \<open>N\<close> with \<open>a \<le> N \<le> b\<close>. The generator's
  state is outside the program; its raw output \<open>r\<close> is an input of the model.
\<close>

definition randint :: "int \<Rightarrow> int \<Rightarrow> nat \<Rightarrow> int" where
  "randint a b r = a + int r mod (b - a + 1)"

section \<open>\<open>models.py\<close>: the request models\<close>

record SubmitModel =
  v :: int
  timestamp :: datetime
  country :: string
  court :: string
  year :: int
  "identifier" :: string
  "text" :: string
  user_key :: string
  meta :: "json option"

record ReadModel =
  v :: int
  timestamp :: datetime
  ecli :: string

record UpdateModel =
  v :: int
  timestamp :: datetime
  ecli :: string

text \<open>
  The validators of the field types belong to pydantic, not to this repository: they are
  a parameter of the model. \<open>json_validator\<close> stands for the annotation \<open>Json\<close> with
  default \<open>None\<close>: it gives the Python value of the field (\<open>None\<close> or the parsed
  document) for a value it accepts.
\<close>

record pydantic =
  int_validator :: "json \<Rightarrow> int option"
  str_validator :: "json \<Rightarrow> string option"
  parse_datetime :: "json \<Rightarrow> datetime option"
  json_validator :: "json \<Rightarrow> json option option"

text \<open>\<open>PositiveInt\<close> is an \<open>int\<close> constrained by \<open>gt=0\<close>.\<close>

definition PositiveInt :: "pydantic \<Rightarrow> json \<Rightarrow> int option" where
  "PositiveInt P j =
     (case int_validator P j of
        None \<Rightarrow> None
      | Some n \<Rightarrow> if 0 < n then Some n else None)"

text \<open>
  One entry of a validation error: the location (the key looked up in the body) and
  whether the key was missing or its value was refused.
\<close>

datatype error_type = Missing | Invalid

type_synonym error_entry = "string \<times> error_type"

text \<open>
  \<open>Field(..., alias=k)\<close>: a required field, read from the body under its alias (under its
  own name when it has no alias).
\<close>

definition Field_required :: "payload \<Rightarrow> string \<Rightarrow> (json \<Rightarrow> 'a option) \<Rightarrow> error_entry + 'a" where
  "Field_required body k validate =
     (case body k of
        None \<Rightarrow> Inl (k, Missing)
      | Some j \<Rightarrow> (case validate j of None \<Rightarrow> Inl (k, Invalid) | Some x \<Rightarrow> Inr x))"

text \<open>\<open>meta: Json = None\<close>: a field that may be absent, and is \<open>None\<close> then.\<close>

definition Field_default_None ::
  "payload \<Rightarrow> string \<Rightarrow> (json \<Rightarrow> 'a option option) \<Rightarrow> error_entry + 'a option" where
  "Field_default_None body k validate =
     (case body k of
        None \<Rightarrow> Inr None
      | Some j \<Rightarrow> (case validate j of None \<Rightarrow> Inl (k, Invalid) | Some x \<Rightarrow> Inr x))"

definition errors_of :: "'e + 'a \<Rightarrow> 'e list" where
  "errors_of r = (case r of Inl e \<Rightarrow> [e] | Inr _ \<Rightarrow> [])"

text \<open>
  Validation of a model runs every field, collects the errors of all of them, and builds
  the model only when there is none.
\<close>

definition validate_SubmitModel :: "pydantic \<Rightarrow> payload \<Rightarrow> error_entry list + SubmitModel" where
  "validate_SubmitModel P body =
     (let f_v = Field_required body ''_v'' (PositiveInt P);
          f_timestamp = Field_required body ''_timestamp'' (parse_datetime P);
          f_country = Field_required body ''country'' (str_validator P);
          f_court = Field_required body ''court'' (str_validator P);
          f_year = Field_required body ''year'' (int_validator P);
          f_identifier = Field_required body ''identifier'' (str_validator P);
          f_text = Field_required body ''text'' (str_validator P);
          f_user_key = Field_required body ''user_key'' (str_validator P);
          f_meta = Field_default_None body ''meta'' (json_validator P);
          errors = errors_of f_v @ errors_of f_timestamp @ errors_of f_country
            @ errors_of f_court @ errors_of f_year @ errors_of f_identifier
            @ errors_of f_text @ errors_of f_user_key @ errors_of f_meta
      in if errors \<noteq> [] then Inl errors
         else Inr \<lparr>SubmitModel.v = projr f_v,
                   SubmitModel.timestamp = projr f_timestamp,
                   SubmitModel.country = projr f_country,
                   SubmitModel.court = projr f_court,
                   SubmitModel.year = projr f_year,
                   SubmitModel.identifier = projr f_identifier,
                   SubmitModel.text = projr f_text,
                   SubmitModel.user_key = projr f_user_key,
                   SubmitModel.meta = projr f_meta\<rparr>)"

definition validate_ReadModel :: "pydantic \<Rightarrow> payload \<Rightarrow> error_entry list + ReadModel" where
  "validate_ReadModel P body =
     (let f_v = Field_required body ''_v'' (PositiveInt P);
          f_timestamp = Field_required body ''_timestamp'' (parse_datetime P);
          f_ecli = Field_required body ''ecli'' (str_validator P);
          errors = errors_of f_v @ errors_of f_timestamp @ errors_of f_ecli
      in if errors \<noteq> [] then Inl errors
         else Inr \<lparr>ReadModel.v = projr f_v,
                   ReadModel.timestamp = projr f_timestamp,
                   ReadModel.ecli = projr f_ecli\<rparr>)"

definition validate_UpdateModel :: "pydantic \<Rightarrow> payload \<Rightarrow> error_entry list + UpdateModel" where
  "validate_UpdateModel P body =
     (let f_v = Field_required body ''_v'' (PositiveInt P);
          f_timestamp = Field_required body ''_timestamp'' (parse_datetime P);
          f_ecli = Field_required body ''ecli'' (str_validator P);
          errors = errors_of f_v @ errors_of f_timestamp @ errors_of f_ecli
      in if errors \<noteq> [] then Inl errors
         else Inr \<lparr>UpdateModel.v = projr f_v,
                   UpdateModel.timestamp = projr f_timestamp,
                   UpdateModel.ecli = projr f_ecli\<rparr>)"

section \<open>\<open>main.py\<close>: configuration, store and routes\<close>

text \<open>Of the configuration only the salt is read by the routes.\<close>

record config =
  salt :: string

definition default_config :: config where
  "default_config = \<lparr>salt = ''OpenJusticePirates''\<rparr>"

definition VERSION :: int where
  "VERSION = 1"

text \<open>
  The table \<open>ecli_document\<close>. The program only inserts, so the rows are kept in the
  order of insertion; \<open>fetchrow\<close> gives the first row the query selects, or \<open>None\<close>.
  Whether \<open>db.execute\<close> takes a row is decided by the driver and the table, neither of
  which is part of the program: it is the parameter \<open>accepts\<close>, asked with the rows
  already stored. A row it does not take makes \<open>db.execute\<close> raise.
\<close>

record ecli_document =
  ecli :: string
  country :: string
  court :: string
  year :: int
  "identifier" :: string
  "text" :: string
  meta :: "json option"
  ukey :: string
  hash :: string

type_synonym db = "ecli_document list"

text \<open>
  What a route can fail with: the framework's answer to a body that does not validate
  (raised before the route's function runs), an \<open>HTTPException\<close> raised by the route,
  and two exceptions that nothing catches: the one \<open>db.execute\<close> raises, and a
  \<open>TypeError\<close>.
\<close>

datatype failure =
    RequestValidationError "error_entry list"
  | HTTPException int string
  | StoreError
  | TypeError

definition status_code :: "failure \<Rightarrow> int" where
  "status_code e =
     (case e of
        RequestValidationError _ \<Rightarrow> 422
      | HTTPException code _ \<Rightarrow> code
      | StoreError \<Rightarrow> 500
      | TypeError \<Rightarrow> 500)"

definition execute_insert ::
  "(db \<Rightarrow> ecli_document \<Rightarrow> bool) \<Rightarrow> db \<Rightarrow> ecli_document \<Rightarrow> failure + db" where
  "execute_insert accepts rows row =
     (if accepts rows row then Inr (rows @ [row]) else Inl StoreError)"

definition fetchrow :: "db \<Rightarrow> (ecli_document \<Rightarrow> bool) \<Rightarrow> ecli_document option" where
  "fetchrow rows sel = List.find sel rows"

text \<open>
  \<open>doc_hash\<close>. The built-in \<open>hash\<close> of a string is keyed by the interpreter when the
  process starts; it is the parameter \<open>py_hash\<close>.
\<close>

definition doc_hash :: "(string \<Rightarrow> int) \<Rightarrow> config \<Rightarrow> nat \<Rightarrow> string \<Rightarrow> string" where
  "doc_hash py_hash cfg r e =
     (let nonce = randint 1 80000 r
      in str_int (abs (py_hash (e @ str_int nonce @ salt cfg))))"

text \<open>\<open>create\<close>, the function behind \<open>POST /create\<close>, run on a validated model.\<close>

definition create ::
  "(db \<Rightarrow> ecli_document \<Rightarrow> bool) \<Rightarrow> (string \<Rightarrow> int) \<Rightarrow> config \<Rightarrow> nat \<Rightarrow> SubmitModel \<Rightarrow> db
     \<Rightarrow> (failure + (string \<times> string) list) \<times> db" where
  "create accepts py_hash cfg r query rows =
     (if SubmitModel.user_key query \<noteq> ''test_key''
      then (Inl (HTTPException 401 ''bad user key''), rows)
      else
        let e = ''ECLI:'' @ SubmitModel.country query @ '':'' @ SubmitModel.court query
              @ '':'' @ str_int (SubmitModel.year query) @ '':'' @ SubmitModel.identifier query;
            docHash = doc_hash py_hash cfg r e
        in case execute_insert accepts rows
              \<lparr>ecli_document.ecli = e,
               ecli_document.country = SubmitModel.country query,
               ecli_document.court = SubmitModel.court query,
               ecli_document.year = SubmitModel.year query,
               ecli_document.identifier = SubmitModel.identifier query,
               ecli_document.text = SubmitModel.text query,
               ecli_document.meta = SubmitModel.meta query,
               ecli_document.ukey = SubmitModel.user_key query,
               ecli_document.hash = docHash\<rparr> of
             Inl error \<Rightarrow> (Inl error, rows)
           | Inr rows' \<Rightarrow> (Inr [(''result'', ''ok''), (''hash'', docHash)], rows'))"

text \<open>The route: the body is validated into a \<open>SubmitModel\<close> first.\<close>

definition post_create ::
  "pydantic \<Rightarrow> (db \<Rightarrow> ecli_document \<Rightarrow> bool) \<Rightarrow> (string \<Rightarrow> int) \<Rightarrow> config \<Rightarrow> nat \<Rightarrow> payload
     \<Rightarrow> db \<Rightarrow> (failure + (string \<times> string) list) \<times> db" where
  "post_create P accepts py_hash cfg r body rows =
     (case validate_SubmitModel P body of
        Inl errors \<Rightarrow> (Inl (RequestValidationError errors), rows)
      | Inr query \<Rightarrow> create accepts py_hash cfg r query rows)"

text \<open>\<open>read\<close> and \<open>update\<close> answer \<open>ok\<close> to any validated model, without a query.\<close>

definition read :: "ReadModel \<Rightarrow> string" where
  "read query = ''ok''"

definition update :: "UpdateModel \<Rightarrow> string" where
  "update query = ''ok''"

definition get_read :: "pydantic \<Rightarrow> payload \<Rightarrow> failure + string" where
  "get_read P body =
     (case validate_ReadModel P body of
        Inl errors \<Rightarrow> Inl (RequestValidationError errors)
      | Inr query \<Rightarrow> Inr (read query))"

definition get_update :: "pydantic \<Rightarrow> payload \<Rightarrow> failure + string" where
  "get_update P body =
     (case validate_UpdateModel P body of
        Inl errors \<Rightarrow> Inl (RequestValidationError errors)
      | Inr query \<Rightarrow> Inr (update query))"

text \<open>
  The page both render routes format: the template with \<open>{ecli}\<close> and \<open>{text}\<close>
  replaced.
\<close>

definition html_page :: "string \<Rightarrow> string \<Rightarrow> string" where
  \<open>html_page e t =
     ''\<newline>    <!DOCTYPE html>\<newline>''
     @ ''    <html lang="en"><body style="font-family:verdana">\<newline>''
     @ ''        <head><title>'' @ e @ ''</title></head>\<newline>''
     @ ''        <body>\<newline>''
     @ ''            '' @ t @ ''\<newline>''
     @ ''        </body>\<newline>''
     @ ''    </html>\<newline>    ''\<close>

text \<open>
  \<open>gohash\<close> and \<open>ecli\<close> (here \<open>ecli_route\<close>, the name \<open>ecli\<close> being a column):
  subscripting the \<open>None\<close> that \<open>fetchrow\<close> gives for no row raises \<open>TypeError\<close>.
\<close>

definition gohash :: "string \<Rightarrow> db \<Rightarrow> failure + string" where
  "gohash dochash rows =
     (case fetchrow rows (\<lambda>row. ecli_document.hash row = dochash) of
        None \<Rightarrow> Inl TypeError
      | Some res \<Rightarrow> Inr (html_page (ecli_document.ecli res) (ecli_document.text res)))"

definition ecli_route :: "string \<Rightarrow> db \<Rightarrow> failure + string" where
  "ecli_route e rows =
     (case fetchrow rows (\<lambda>row. ecli_document.ecli row = e) of
        None \<Rightarrow> Inl TypeError
      | Some res \<Rightarrow> Inr (html_page (ecli_document.ecli res) (ecli_document.text res)))"

section \<open>Concrete inputs\<close>

text \<open>
  For concrete runs the parameters need values. \<open>exact_types\<close> accepts a value of the
  field's own JSON type (an integer for \<open>int\<close>, a string for \<open>str\<close>, an integer number of
  seconds for \<open>datetime\<close>; for \<open>meta\<close>, \<open>null\<close> and the document \<open>{}\<close> of the model's
  example) and refuses every other value. Pydantic converts some values of another type;
  the runs below use \<open>exact_types\<close> on bodies about which the two agree. \<open>sample_hash\<close>
  stands in for the built-in \<open>hash\<close>, with values in the range of a signed 64-bit integer.
\<close>

definition exact_types :: pydantic where
  "exact_types =
     \<lparr>int_validator = (\<lambda>j. case j of JInt n \<Rightarrow> Some n | _ \<Rightarrow> None),
      str_validator = (\<lambda>j. case j of JStr s \<Rightarrow> Some s | _ \<Rightarrow> None),
      parse_datetime = (\<lambda>j. case j of JInt n \<Rightarrow> Some (Datetime n) | _ \<Rightarrow> None),
      json_validator = (\<lambda>j. case j of
          JNull \<Rightarrow> Some None
        | JStr s \<Rightarrow> if s = ''{}'' then Some (Some (JObj [])) else None
        | _ \<Rightarrow> None)\<rparr>"

definition sample_hash :: "string \<Rightarrow> int" where
  "sample_hash s = foldl (\<lambda>a c. (a * 1000003 + of_char c) mod 2 ^ 64) 0 s - 2 ^ 63"

text \<open>The example of \<open>SubmitModel.Config\<close>, and the same body with the key the gate accepts.\<close>

definition submit_example :: payload where
  "submit_example =
     [''_v'' \<mapsto> JInt 1, ''_timestamp'' \<mapsto> JInt 1239120938, ''country'' \<mapsto> JStr ''BE'',
      ''court'' \<mapsto> JStr ''RSCE'', ''year'' \<mapsto> JInt 2010, ''identifier'' \<mapsto> JStr ''999.999'',
      ''text'' \<mapsto> JStr ''Lorem Ipsum ...'', ''user_key'' \<mapsto> JStr ''OIJAS-OIQWE'',
      ''meta'' \<mapsto> JStr ''{}'']"

definition submit_authorized :: payload where
  "submit_authorized = submit_example(''user_key'' \<mapsto> JStr ''test_key'')"

definition submit_model :: "string \<Rightarrow> string \<Rightarrow> SubmitModel" where
  "submit_model t k =
     \<lparr>SubmitModel.v = 1, SubmitModel.timestamp = Datetime 1239120938,
      SubmitModel.country = ''BE'', SubmitModel.court = ''RSCE'', SubmitModel.year = 2010,
      SubmitModel.identifier = ''999.999'', SubmitModel.text = t, SubmitModel.user_key = k,
      SubmitModel.meta = Some (JObj [])\<rparr>"

text \<open>
  \<open>lax_types\<close> adds three of the conversions pydantic 1 makes to \<open>exact_types\<close>: an
  integer given for a string becomes its decimal rendering, a string that is the decimal
  rendering of an integer given for an integer becomes that integer, and a float given
  for an integer is truncated towards zero.
\<close>

definition float_trunc :: "int \<Rightarrow> int \<Rightarrow> int" where
  "float_trunc m e =
     (if 0 \<le> e then m * 2 ^ nat e
      else if 0 \<le> m then m div 2 ^ nat (- e)
      else - ((- m) div 2 ^ nat (- e)))"

definition lax_types :: pydantic where
  "lax_types =
     \<lparr>int_validator = (\<lambda>j. case j of
          JInt n \<Rightarrow> Some n
        | JFloat m e \<Rightarrow> Some (float_trunc m e)
        | JStr s \<Rightarrow> if str_int (read_int s) = s then Some (read_int s) else None
        | _ \<Rightarrow> None),
      str_validator = (\<lambda>j. case j of
          JStr s \<Rightarrow> Some s
        | JInt n \<Rightarrow> Some (str_int n)
        | _ \<Rightarrow> None),
      parse_datetime = parse_datetime exact_types,
      json_validator = json_validator exact_types\<rparr>"

text \<open>
  \<open>sample_table\<close> is a table of text columns with a 32-bit integer column for the year,
  written through a connection with no codec for \<open>meta\<close>: a meta other than \<open>None\<close>
  (\<open>Json\<close> parses the field into a Python object), a string with a NUL character and a
  year outside the column's range make \<open>db.execute\<close> raise.
\<close>

definition sample_table :: "db \<Rightarrow> ecli_document \<Rightarrow> bool" where
  "sample_table rows row =
     (ecli_document.meta row = None
      \<and> CHR 0x00 \<notin> set (ecli_document.ecli row)
      \<and> CHR 0x00 \<notin> set (ecli_document.country row)
      \<and> CHR 0x00 \<notin> set (ecli_document.court row)
      \<and> CHR 0x00 \<notin> set (ecli_document.identifier row)
      \<and> CHR 0x00 \<notin> set (ecli_document.text row)
      \<and> CHR 0x00 \<notin> set (ecli_document.ukey row)
      \<and> CHR 0x00 \<notin> set (ecli_document.hash row)
      \<and> - (2 ^ 31) \<le> ecli_document.year row \<and> ecli_document.year row < 2 ^ 31)"

text \<open>
  The example body with the key the gate accepts and no meta, the model it validates
  into with a text of choice, and the row \<open>create\<close> builds from that model.
\<close>

definition submit_plain :: payload where
  "submit_plain = submit_authorized(''meta'' := None)"

definition plain_model :: "string \<Rightarrow> SubmitModel" where
  "plain_model t = (submit_model t ''test_key'')\<lparr>SubmitModel.meta := None\<rparr>"

definition plain_row :: "string \<Rightarrow> string \<Rightarrow> ecli_document" where
  "plain_row t token =
     \<lparr>ecli_document.ecli = ''ECLI:BE:RSCE:2010:999.999'', ecli_document.country = ''BE'',
      ecli_document.court = ''RSCE'', ecli_document.year = 2010,
      ecli_document.identifier = ''999.999'', ecli_document.text = t,
      ecli_document.meta = None, ecli_document.ukey = ''test_key'',
      ecli_document.hash = token\<rparr>"

text \<open>The example of \<open>ReadModel.Config\<close> and of \<open>UpdateModel.Config\<close>.\<close>

definition read_example :: payload where
  "read_example =
     [''_v'' \<mapsto> JInt 1, ''_timestamp'' \<mapsto> JInt 1239120938,
      ''ecli'' \<mapsto> JStr ''ECLI:BE:RSCE:2020:999.999'']"

section \<open>Offending keys of a Submit body\<close>

text \<open>
  The keys a Submit body must have, and the test by which the value under a key is
  refused: the validator of the field read under that key.
\<close>

definition submit_required :: "string list" where
  "submit_required =
     [''_v'', ''_timestamp'', ''country'', ''court'', ''year'', ''identifier'', ''text'',
      ''user_key'']"

definition submit_refuses :: "pydantic \<Rightarrow> string \<Rightarrow> json \<Rightarrow> bool" where
  "submit_refuses P k j =
     (if k = ''_v'' then PositiveInt P j = None
      else if k = ''_timestamp'' then parse_datetime P j = None
      else if k = ''year'' then int_validator P j = None
      else if k \<in> set [''country'', ''court'', ''identifier'', ''text'', ''user_key'']
        then str_validator P j = None
      else if k = ''meta'' then json_validator P j = None
      else False)"

definition offending :: "pydantic \<Rightarrow> payload \<Rightarrow> string \<Rightarrow> bool" where
  "offending P body k =
     (case body k of
        None \<Rightarrow> k \<in> set submit_required
      | Some j \<Rightarrow> submit_refuses P k j)"


text \<open>The errors of all fields of a Submit body, in the order of the fields.\<close>

definition submit_errors :: "pydantic \<Rightarrow> payload \<Rightarrow> error_entry list" where
  "submit_errors P body =
     errors_of (Field_required body ''_v'' (PositiveInt P))
     @ errors_of (Field_required body ''_timestamp'' (parse_datetime P))
     @ errors_of (Field_required body ''country'' (str_validator P))
     @ errors_of (Field_required body ''court'' (str_validator P))
     @ errors_of (Field_required body ''year'' (int_validator P))
     @ errors_of (Field_required body ''identifier'' (str_validator P))
     @ errors_of (Field_required body ''text'' (str_validator P))
     @ errors_of (Field_required body ''user_key'' (str_validator P))
     @ errors_of (Field_default_None body ''meta'' (json_validator P))"

text \<open>A Submit model with the string field read under the key \<open>k\<close> made empty.\<close>

definition emptied :: "string \<Rightarrow> SubmitModel \<Rightarrow> SubmitModel" where
  "emptied k q =
     (if k = ''country'' then q\<lparr>SubmitModel.country := ''''\<rparr>
      else if k = ''court'' then q\<lparr>SubmitModel.court := ''''\<rparr>
      else if k = ''identifier'' then q\<lparr>SubmitModel.identifier := ''''\<rparr>
      else if k = ''text'' then q\<lparr>SubmitModel.text := ''''\<rparr>
      else if k = ''user_key'' then q\<lparr>SubmitModel.user_key := ''''\<rparr>
      else q)"

text \<open>
  Bodies that do not follow the model: one with no text, a list for the year, and a
  timestamp and a meta that do not parse; one with the envelope under the names of the
  fields instead of their aliases, for Submit and for Read and Update; one with empty
  strings.
\<close>

definition submit_invalid :: payload where
  "submit_invalid =
     (submit_example(''_timestamp'' \<mapsto> JStr ''yesterday'', ''year'' \<mapsto> JList [],
        ''meta'' \<mapsto> JStr ''{''))(''text'' := None)"

definition submit_unaliased :: payload where
  "submit_unaliased =
     [''v'' \<mapsto> JInt 1, ''timestamp'' \<mapsto> JInt 1239120938, ''country'' \<mapsto> JStr ''BE'',
      ''court'' \<mapsto> JStr ''RSCE'', ''year'' \<mapsto> JInt 2010, ''identifier'' \<mapsto> JStr ''999.999'',
      ''text'' \<mapsto> JStr ''Lorem Ipsum ...'', ''user_key'' \<mapsto> JStr ''test_key'',
      ''meta'' \<mapsto> JStr ''{}'']"

definition read_unaliased :: payload where
  "read_unaliased =
     [''v'' \<mapsto> JInt 1, ''timestamp'' \<mapsto> JInt 1239120938,
      ''ecli'' \<mapsto> JStr ''ECLI:BE:RSCE:2020:999.999'']"

definition submit_empty_strings :: payload where
  "submit_empty_strings =
     submit_authorized(''country'' \<mapsto> JStr '''', ''court'' \<mapsto> JStr '''',
       ''identifier'' \<mapsto> JStr '''', ''text'' \<mapsto> JStr '''')"

section \<open>Decimal rendering\<close>

lemma digit_value_digit_char: "d < 10 \<Longrightarrow> digit_value (digit_char d) = d"
proof -
  assume "d < 10"
  then have "d \<in> {0, 1, 2, 3, 4, 5, 6, 7, 8, 9}" by auto
  then show ?thesis by (auto simp: digit_value_def digit_char_def)
qed

lemma digit_char_in_digits: "d < 10 \<Longrightarrow> digit_char d \<in> set ''0123456789''"
  unfolding digit_char_def by (rule nth_mem) simp

lemma str_nat_small: "n < 10 \<Longrightarrow> str_nat n = [digit_char n]"
  by (subst str_nat.simps) simp

lemma str_nat_big: "10 \<le> n \<Longrightarrow> str_nat n = str_nat (n div 10) @ [digit_char (n mod 10)]"
  by (subst str_nat.simps) simp

lemma read_decimal_snoc: "read_decimal (s @ [c]) = 10 * read_decimal s + digit_value c"
  by (simp add: read_decimal_def)

lemma read_decimal_str_nat: "read_decimal (str_nat n) = n"
proof (induction n rule: str_nat.induct)
  case (1 n)
  show ?case
  proof (cases "n < 10")
    case True
    then show ?thesis
      by (simp add: str_nat_small read_decimal_def digit_value_digit_char)
  next
    case False
    with 1 have "read_decimal (str_nat (n div 10)) = n div 10" by simp
    with False show ?thesis
      by (simp add: str_nat_big read_decimal_snoc digit_value_digit_char)
  qed
qed

lemma str_nat_digits: "set (str_nat n) \<subseteq> set ''0123456789''"
proof (induction n rule: str_nat.induct)
  case (1 n)
  show ?case
  proof (cases "n < 10")
    case True
    then show ?thesis
      using digit_char_in_digits [of n] by (simp add: str_nat_small)
  next
    case False
    with 1 have "set (str_nat (n div 10)) \<subseteq> set ''0123456789''" by simp
    with False show ?thesis
      using digit_char_in_digits [of "n mod 10"] by (simp add: str_nat_big)
  qed
qed

lemma str_nat_nonempty: "str_nat n \<noteq> []"
  by (subst str_nat.simps) simp

lemma str_nat_inj: "str_nat m = str_nat n \<Longrightarrow> m = n"
  by (metis read_decimal_str_nat)

lemma str_int_abs: "str_int \<bar>i\<bar> = str_nat (nat \<bar>i\<bar>)"
  by (simp add: str_int_def)

lemma str_int_abs_inj: "(str_int \<bar>i\<bar> = str_int \<bar>j\<bar>) = (\<bar>i\<bar> = \<bar>j\<bar>)"
proof
  assume "str_int \<bar>i\<bar> = str_int \<bar>j\<bar>"
  then have "nat \<bar>i\<bar> = nat \<bar>j\<bar>" by (simp add: str_int_abs str_nat_inj)
  then show "\<bar>i\<bar> = \<bar>j\<bar>" by simp
qed simp

lemma randint_range: "a \<le> b \<Longrightarrow> a \<le> randint a b r \<and> randint a b r \<le> b"
  unfolding randint_def
  using pos_mod_bound [of "b - a + 1" "int r"] pos_mod_sign [of "b - a + 1" "int r"]
  by simp

lemma str_nat_length_one: "n < 10 \<Longrightarrow> length (str_nat n) = 1"
  by (simp add: str_nat_small)

lemma digit_char_zero: "d < 10 \<Longrightarrow> (digit_char d = CHR ''0'') = (d = 0)"
proof -
  assume "d < 10"
  then have "d \<in> {0, 1, 2, 3, 4, 5, 6, 7, 8, 9}" by auto
  then show ?thesis by (auto simp: digit_char_def)
qed

lemma str_nat_no_leading_zero: "0 < n \<Longrightarrow> hd (str_nat n) \<noteq> CHR ''0''"
proof (induction n rule: str_nat.induct)
  case (1 n)
  show ?case
  proof (cases "n < 10")
    case True
    with 1(2) show ?thesis by (simp add: str_nat_small digit_char_zero)
  next
    case False
    then have "0 < n div 10" by simp
    with 1(1) False have "hd (str_nat (n div 10)) \<noteq> CHR ''0''" by simp
    with False show ?thesis by (simp add: str_nat_big str_nat_nonempty)
  qed
qed

lemma canonical_str_nat: "canonical_decimal (str_nat n)"
proof (cases "n < 10")
  case True
  then show ?thesis
    unfolding canonical_decimal_def
    using str_nat_digits [of n] by (simp add: str_nat_nonempty str_nat_length_one del: set_simps)
next
  case False
  then have "hd (str_nat n) \<noteq> CHR ''0''" by (simp add: str_nat_no_leading_zero)
  then show ?thesis
    unfolding canonical_decimal_def
    using str_nat_digits [of n] by (simp add: str_nat_nonempty del: set_simps)
qed

lemma str_nat_not_minus: "hd (str_nat n) \<noteq> CHR ''-''"
proof -
  have "hd (str_nat n) \<in> set (str_nat n)" by (simp add: str_nat_nonempty)
  with str_nat_digits [of n] have "hd (str_nat n) \<in> set ''0123456789''" by blast
  then show ?thesis by auto
qed

lemma doc_hash_no_NUL: "CHR 0x00 \<notin> set (doc_hash py_hash cfg r e)"
proof -
  have "set (doc_hash py_hash cfg r e) \<subseteq> set ''0123456789''"
    by (simp add: doc_hash_def Let_def str_int_abs str_nat_digits del: set_simps)
  then show ?thesis by auto
qed


section \<open>The hash generator\<close>

text \<open>
  C6. For every ECLI string, \<open>doc_hash\<close> draws a nonce between 1 and 80000 (both
  included), hashes the string made of the ECLI, the nonce in decimal and the salt, in
  this order, and returns the absolute value of the hash in decimal: a non-empty string
  of digits that reads back as that absolute value.
\<close>

theorem doc_hash_decimal:
  "doc_hash py_hash cfg r e
     = str_int \<bar>py_hash (e @ str_int (randint 1 80000 r) @ salt cfg)\<bar>
   \<and> 1 \<le> randint 1 80000 r \<and> randint 1 80000 r \<le> 80000
   \<and> randint 1 80000 0 = 1 \<and> randint 1 80000 79999 = 80000
   \<and> doc_hash py_hash cfg r e \<noteq> []
   \<and> set (doc_hash py_hash cfg r e) \<subseteq> set ''0123456789''
   \<and> int (read_decimal (doc_hash py_hash cfg r e))
       = \<bar>py_hash (e @ str_int (randint 1 80000 r) @ salt cfg)\<bar>"
proof -
  have "randint 1 80000 0 = 1 \<and> randint 1 80000 79999 = 80000"
    by (simp add: randint_def)
  with randint_range [of 1 80000 r] show ?thesis
    by (simp add: doc_hash_def Let_def str_int_abs str_nat_nonempty str_nat_digits
        read_decimal_str_nat del: set_simps)
qed

section \<open>Validation of a request body\<close>

lemma in_errors_of_Field:
  "(k \<in> fst ` set (errors_of (Field_required body k' val)))
     = (k = k' \<and> (case body k of None \<Rightarrow> True | Some j \<Rightarrow> val j = None))"
  by (auto simp: Field_required_def errors_of_def split: option.splits)

lemma in_errors_of_Field_default:
  "(k \<in> fst ` set (errors_of (Field_default_None body k' val)))
     = (k = k' \<and> (case body k of None \<Rightarrow> False | Some j \<Rightarrow> val j = None))"
  by (auto simp: Field_default_None_def errors_of_def split: option.splits)

lemma validate_SubmitModel_cases:
  "validate_SubmitModel P body =
     (if submit_errors P body \<noteq> [] then Inl (submit_errors P body)
      else Inr \<lparr>SubmitModel.v = projr (Field_required body ''_v'' (PositiveInt P)),
                   SubmitModel.timestamp = projr (Field_required body ''_timestamp'' (parse_datetime P)),
                   SubmitModel.country = projr (Field_required body ''country'' (str_validator P)),
                   SubmitModel.court = projr (Field_required body ''court'' (str_validator P)),
                   SubmitModel.year = projr (Field_required body ''year'' (int_validator P)),
                   SubmitModel.identifier = projr (Field_required body ''identifier'' (str_validator P)),
                   SubmitModel.text = projr (Field_required body ''text'' (str_validator P)),
                   SubmitModel.user_key = projr (Field_required body ''user_key'' (str_validator P)),
                   SubmitModel.meta = projr (Field_default_None body ''meta'' (json_validator P))\<rparr>)"
  unfolding validate_SubmitModel_def submit_errors_def Let_def by (rule refl)

lemma in_submit_errors:
  "(k \<in> fst ` set (submit_errors P body)) =
     (k = ''_v'' \<and> (case body k of None \<Rightarrow> True | Some j \<Rightarrow> PositiveInt P j = None)
      \<or> k = ''_timestamp'' \<and> (case body k of None \<Rightarrow> True | Some j \<Rightarrow> parse_datetime P j = None)
      \<or> k = ''country'' \<and> (case body k of None \<Rightarrow> True | Some j \<Rightarrow> str_validator P j = None)
      \<or> k = ''court'' \<and> (case body k of None \<Rightarrow> True | Some j \<Rightarrow> str_validator P j = None)
      \<or> k = ''year'' \<and> (case body k of None \<Rightarrow> True | Some j \<Rightarrow> int_validator P j = None)
      \<or> k = ''identifier'' \<and> (case body k of None \<Rightarrow> True | Some j \<Rightarrow> str_validator P j = None)
      \<or> k = ''text'' \<and> (case body k of None \<Rightarrow> True | Some j \<Rightarrow> str_validator P j = None)
      \<or> k = ''user_key'' \<and> (case body k of None \<Rightarrow> True | Some j \<Rightarrow> str_validator P j = None)
      \<or> k = ''meta'' \<and> (case body k of None \<Rightarrow> False | Some j \<Rightarrow> json_validator P j = None))"
  unfolding submit_errors_def
  by (simp only: set_append image_Un Un_iff in_errors_of_Field in_errors_of_Field_default)

lemma submit_errors_keys:
  "(k \<in> fst ` set (submit_errors P body)) = offending P body k"
proof (cases "body k")
  case None
  then show ?thesis
    unfolding in_submit_errors offending_def submit_required_def
    by (simp only: option.case list.set insert_iff empty_iff simp_thms)
next
  case (Some j)
  then show ?thesis
    unfolding in_submit_errors offending_def submit_refuses_def
    by (simp only: option.case list.set insert_iff empty_iff) simp
qed

lemma offending_rejected:
  assumes "offending P body k"
  shows "validate_SubmitModel P body = Inl (submit_errors P body)
     \<and> k \<in> fst ` set (submit_errors P body)"
proof -
  from assms have k: "k \<in> fst ` set (submit_errors P body)"
    by (simp only: submit_errors_keys)
  then have "submit_errors P body \<noteq> []" by auto
  then have "validate_SubmitModel P body = Inl (submit_errors P body)"
    by (simp add: validate_SubmitModel_cases)
  with k show ?thesis by simp
qed

lemma Field_required_missing:
  "body k = None \<Longrightarrow> errors_of (Field_required body k val) = [(k, Missing)]"
  by (simp add: Field_required_def errors_of_def)

lemma Field_required_ok:
  "errors_of (Field_required body k val) = [] \<Longrightarrow>
     \<exists>j. body k = Some j \<and> val j = Some (projr (Field_required body k val))"
  by (auto simp: Field_required_def errors_of_def split: option.splits)

lemma PositiveInt_Some: "PositiveInt P j = Some n \<Longrightarrow> int_validator P j = Some n \<and> 0 < n"
  by (auto simp: PositiveInt_def split: option.splits if_splits)

lemma validate_SubmitModel_v:
  assumes "validate_SubmitModel P body = Inr q"
  shows "\<exists>j. body ''_v'' = Some j \<and> PositiveInt P j = Some (SubmitModel.v q)"
proof -
  from assms have e: "submit_errors P body = []"
    and q: "SubmitModel.v q = projr (Field_required body ''_v'' (PositiveInt P))"
    by (auto simp: validate_SubmitModel_cases split: if_splits)
  from e have "errors_of (Field_required body ''_v'' (PositiveInt P)) = []"
    by (simp add: submit_errors_def)
  from Field_required_ok [OF this] q show ?thesis by simp
qed

lemma validate_ReadModel_v:
  assumes "validate_ReadModel P body = Inr q"
  shows "\<exists>j. body ''_v'' = Some j \<and> PositiveInt P j = Some (ReadModel.v q)"
proof -
  from assms have e: "errors_of (Field_required body ''_v'' (PositiveInt P)) = []"
    and q: "ReadModel.v q = projr (Field_required body ''_v'' (PositiveInt P))"
    by (auto simp: validate_ReadModel_def Let_def split: if_splits)
  from Field_required_ok [OF e] q show ?thesis by simp
qed

lemma validate_UpdateModel_v:
  assumes "validate_UpdateModel P body = Inr q"
  shows "\<exists>j. body ''_v'' = Some j \<and> PositiveInt P j = Some (UpdateModel.v q)"
proof -
  from assms have e: "errors_of (Field_required body ''_v'' (PositiveInt P)) = []"
    and q: "UpdateModel.v q = projr (Field_required body ''_v'' (PositiveInt P))"
    by (auto simp: validate_UpdateModel_def Let_def split: if_splits)
  from Field_required_ok [OF e] q show ?thesis by simp
qed

lemma Field_required_upd_other:
  "k' \<noteq> k \<Longrightarrow> Field_required (body(k \<mapsto> j)) k' val = Field_required body k' val"
  by (simp add: Field_required_def)

lemma Field_default_None_upd_other:
  "k' \<noteq> k \<Longrightarrow> Field_default_None (body(k \<mapsto> j)) k' val = Field_default_None body k' val"
  by (simp add: Field_default_None_def)

lemma errors_of_Inr: "errors_of (Inr x) = []"
  by (simp add: errors_of_def)

lemma emptying_keeps_valid:
  assumes v: "validate_SubmitModel P body = Inr q"
    and e: "str_validator P (JStr '''') = Some ''''"
    and k: "k \<in> set [''country'', ''court'', ''identifier'', ''text'', ''user_key'']"
  shows "validate_SubmitModel P (body(k \<mapsto> JStr '''')) = Inr (emptied k q)"
proof -
  from v have n: "submit_errors P body = []"
    by (auto simp: validate_SubmitModel_cases split: if_splits)
  then have errs:
    "errors_of (Field_required body ''_v'' (PositiveInt P)) = []"
    "errors_of (Field_required body ''_timestamp'' (parse_datetime P)) = []"
    "errors_of (Field_required body ''country'' (str_validator P)) = []"
    "errors_of (Field_required body ''court'' (str_validator P)) = []"
    "errors_of (Field_required body ''year'' (int_validator P)) = []"
    "errors_of (Field_required body ''identifier'' (str_validator P)) = []"
    "errors_of (Field_required body ''text'' (str_validator P)) = []"
    "errors_of (Field_required body ''user_key'' (str_validator P)) = []"
    "errors_of (Field_default_None body ''meta'' (json_validator P)) = []"
    by (simp_all add: submit_errors_def)
  from v n have q: "q =
      \<lparr>SubmitModel.v = projr (Field_required body ''_v'' (PositiveInt P)),
       SubmitModel.timestamp = projr (Field_required body ''_timestamp'' (parse_datetime P)),
       SubmitModel.country = projr (Field_required body ''country'' (str_validator P)),
       SubmitModel.court = projr (Field_required body ''court'' (str_validator P)),
       SubmitModel.year = projr (Field_required body ''year'' (int_validator P)),
       SubmitModel.identifier = projr (Field_required body ''identifier'' (str_validator P)),
       SubmitModel.text = projr (Field_required body ''text'' (str_validator P)),
       SubmitModel.user_key = projr (Field_required body ''user_key'' (str_validator P)),
       SubmitModel.meta = projr (Field_default_None body ''meta'' (json_validator P))\<rparr>"
    by (simp add: validate_SubmitModel_cases)
  from e have emp: "\<And>k'. Field_required (body(k' \<mapsto> JStr '''')) k' (str_validator P) = Inr ''''"
    by (simp add: Field_required_def)
  from k have "k = ''country'' \<or> k = ''court'' \<or> k = ''identifier'' \<or> k = ''text''
      \<or> k = ''user_key''"
    by simp
  then show ?thesis
  proof (elim disjE)
    assume "k = ''country''"
    then show ?thesis
      by (simp add: validate_SubmitModel_cases submit_errors_def Field_required_upd_other
          emp Field_default_None_upd_other errors_of_Inr errs
          emptied_def q)
  next
    assume "k = ''court''"
    then show ?thesis
      by (simp add: validate_SubmitModel_cases submit_errors_def Field_required_upd_other
          emp Field_default_None_upd_other errors_of_Inr errs
          emptied_def q)
  next
    assume "k = ''identifier''"
    then show ?thesis
      by (simp add: validate_SubmitModel_cases submit_errors_def Field_required_upd_other
          emp Field_default_None_upd_other errors_of_Inr errs
          emptied_def q)
  next
    assume "k = ''text''"
    then show ?thesis
      by (simp add: validate_SubmitModel_cases submit_errors_def Field_required_upd_other
          emp Field_default_None_upd_other errors_of_Inr errs
          emptied_def q)
  next
    assume "k = ''user_key''"
    then show ?thesis
      by (simp add: validate_SubmitModel_cases submit_errors_def Field_required_upd_other
          emp Field_default_None_upd_other errors_of_Inr errs
          emptied_def q)
  qed
qed

lemma string_key_offending:
  assumes "k \<in> set [''country'', ''court'', ''identifier'', ''text'', ''user_key'']"
    and "body k = None \<or> (\<exists>j. body k = Some j \<and> str_validator P j = None)"
  shows "offending P body k"
proof -
  from assms(1) have "k = ''country'' \<or> k = ''court'' \<or> k = ''identifier'' \<or> k = ''text''
      \<or> k = ''user_key''"
    by simp
  then show ?thesis
  proof (elim disjE)
    assume "k = ''country''"
    with assms(2) show ?thesis
      by (auto simp: offending_def submit_required_def submit_refuses_def)
  next
    assume "k = ''court''"
    with assms(2) show ?thesis
      by (auto simp: offending_def submit_required_def submit_refuses_def)
  next
    assume "k = ''identifier''"
    with assms(2) show ?thesis
      by (auto simp: offending_def submit_required_def submit_refuses_def)
  next
    assume "k = ''text''"
    with assms(2) show ?thesis
      by (auto simp: offending_def submit_required_def submit_refuses_def)
  next
    assume "k = ''user_key''"
    with assms(2) show ?thesis
      by (auto simp: offending_def submit_required_def submit_refuses_def)
  qed
qed

lemma validate_SubmitModel_identity:
  assumes "validate_SubmitModel P body = Inr q"
  shows "(\<exists>j. body ''country'' = Some j \<and> str_validator P j = Some (SubmitModel.country q))
     \<and> (\<exists>j. body ''court'' = Some j \<and> str_validator P j = Some (SubmitModel.court q))
     \<and> (\<exists>j. body ''year'' = Some j \<and> int_validator P j = Some (SubmitModel.year q))
     \<and> (\<exists>j. body ''identifier'' = Some j
          \<and> str_validator P j = Some (SubmitModel.identifier q))"
proof -
  from assms have e: "submit_errors P body = []"
    and q: "SubmitModel.country q = projr (Field_required body ''country'' (str_validator P))"
      "SubmitModel.court q = projr (Field_required body ''court'' (str_validator P))"
      "SubmitModel.year q = projr (Field_required body ''year'' (int_validator P))"
      "SubmitModel.identifier q = projr (Field_required body ''identifier'' (str_validator P))"
    by (auto simp: validate_SubmitModel_cases split: if_splits)
  from e have
    "errors_of (Field_required body ''country'' (str_validator P)) = []"
    "errors_of (Field_required body ''court'' (str_validator P)) = []"
    "errors_of (Field_required body ''year'' (int_validator P)) = []"
    "errors_of (Field_required body ''identifier'' (str_validator P)) = []"
    by (simp_all add: submit_errors_def)
  from this [THEN Field_required_ok] q show ?thesis by simp
qed

section \<open>Concrete runs\<close>

lemma validate_submit_authorized:
  "validate_SubmitModel exact_types submit_authorized = Inr (submit_model ''Lorem Ipsum ...'' ''test_key'')"
  by (simp add: validate_SubmitModel_def submit_authorized_def submit_example_def
      exact_types_def Field_required_def Field_default_None_def PositiveInt_def errors_of_def
      submit_model_def)

lemma validate_submit_example:
  "validate_SubmitModel exact_types submit_example = Inr (submit_model ''Lorem Ipsum ...'' ''OIJAS-OIQWE'')"
  by (simp add: validate_SubmitModel_def submit_example_def
      exact_types_def Field_required_def Field_default_None_def PositiveInt_def errors_of_def
      submit_model_def)

lemma validate_submit_plain:
  "validate_SubmitModel exact_types submit_plain = Inr (plain_model ''Lorem Ipsum ...'')"
  by (simp add: validate_SubmitModel_def submit_plain_def submit_authorized_def
      submit_example_def exact_types_def Field_required_def Field_default_None_def
      PositiveInt_def errors_of_def submit_model_def plain_model_def)

lemma str_int_2010: "str_int 2010 = ''2010''"
  by (simp add: str_int_def str_nat_small str_nat_big digit_char_def)

lemma token_41:
  "doc_hash sample_hash default_config 41 ''ECLI:BE:RSCE:2010:999.999'' = ''4282715678040815947''"
proof -
  have n: "str_int (randint 1 80000 41) = ''42''"
    by (simp add: randint_def str_int_def str_nat_small str_nat_big digit_char_def)
  have h: "sample_hash (''ECLI:BE:RSCE:2010:999.999'' @ ''42'' @ ''OpenJusticePirates'')
      = - 4282715678040815947"
    by (simp add: sample_hash_def)
  have s: "str_int \<bar>- 4282715678040815947\<bar> = ''4282715678040815947''"
    by (simp add: str_int_def str_nat_small str_nat_big digit_char_def)
  have "doc_hash sample_hash default_config 41 ''ECLI:BE:RSCE:2010:999.999''
      = str_int \<bar>sample_hash (''ECLI:BE:RSCE:2010:999.999'' @ str_int (randint 1 80000 41)
          @ ''OpenJusticePirates'')\<bar>"
    by (simp only: doc_hash_def Let_def default_config_def config.simps)
  also have "\<dots> = ''4282715678040815947''"
    by (simp only: n h s)
  finally show ?thesis .
qed

lemma token_42:
  "doc_hash sample_hash default_config 42 ''ECLI:BE:RSCE:2010:999.999'' = ''5412555749690408578''"
proof -
  have n: "str_int (randint 1 80000 42) = ''43''"
    by (simp add: randint_def str_int_def str_nat_small str_nat_big digit_char_def)
  have h: "sample_hash (''ECLI:BE:RSCE:2010:999.999'' @ ''43'' @ ''OpenJusticePirates'')
      = - 5412555749690408578"
    by (simp add: sample_hash_def)
  have s: "str_int \<bar>- 5412555749690408578\<bar> = ''5412555749690408578''"
    by (simp add: str_int_def str_nat_small str_nat_big digit_char_def)
  have "doc_hash sample_hash default_config 42 ''ECLI:BE:RSCE:2010:999.999''
      = str_int \<bar>sample_hash (''ECLI:BE:RSCE:2010:999.999'' @ str_int (randint 1 80000 42)
          @ ''OpenJusticePirates'')\<bar>"
    by (simp only: doc_hash_def Let_def default_config_def config.simps)
  also have "\<dots> = ''5412555749690408578''"
    by (simp only: n h s)
  finally show ?thesis .
qed

text \<open>
  What \<open>create\<close> does with the model of the example body without meta on
  \<open>sample_table\<close>, for a text without NUL: the row is stored.
\<close>

lemma create_plain:
  assumes "CHR 0x00 \<notin> set t"
  shows "create sample_table sample_hash default_config r (plain_model t) rows =
     (Inr [(''result'', ''ok''),
           (''hash'', doc_hash sample_hash default_config r ''ECLI:BE:RSCE:2010:999.999'')],
      rows @ [plain_row t
        (doc_hash sample_hash default_config r ''ECLI:BE:RSCE:2010:999.999'')])"
  using assms
  by (simp add: create_def plain_model_def submit_model_def execute_insert_def Let_def
      str_int_2010 sample_table_def doc_hash_no_NUL plain_row_def)

section \<open>Submission\<close>

text \<open>
  C1. For a body that validates into a model whose key the gate accepts, \<open>create\<close> builds
  the string \<open>ECLI:country:court:year:identifier\<close> from the four identity fields of the
  model, which are the validated values of the body under these keys, with the year in
  decimal (its digits without a leading zero, after a minus sign when it is negative).
  The row it hands to \<open>db.execute\<close> has that string in the \<open>ecli\<close> column and the token
  derived from that string; when the row is taken it is the one row added and the token
  is returned, otherwise nothing is stored. With any other text and meta the string and
  the token are the same.
\<close>

theorem create_ecli:
  assumes "validate_SubmitModel P body = Inr q"
    and "SubmitModel.user_key q = ''test_key''"
  shows "\<exists>e row.
      e = ''ECLI:'' @ SubmitModel.country q @ '':'' @ SubmitModel.court q @ '':''
            @ str_int (SubmitModel.year q) @ '':'' @ SubmitModel.identifier q
    \<and> row =
        \<lparr>ecli_document.ecli = e,
         ecli_document.country = SubmitModel.country q,
         ecli_document.court = SubmitModel.court q,
         ecli_document.year = SubmitModel.year q,
         ecli_document.identifier = SubmitModel.identifier q,
         ecli_document.text = SubmitModel.text q,
         ecli_document.meta = SubmitModel.meta q,
         ecli_document.ukey = ''test_key'',
         ecli_document.hash = doc_hash py_hash cfg r e\<rparr>
    \<and> post_create P accepts py_hash cfg r body rows =
        (if accepts rows row
         then (Inr [(''result'', ''ok''), (''hash'', doc_hash py_hash cfg r e)], rows @ [row])
         else (Inl StoreError, rows))
    \<and> create accepts py_hash cfg r (q\<lparr>SubmitModel.text := t, SubmitModel.meta := m\<rparr>) rows =
        (if accepts rows (row\<lparr>ecli_document.text := t, ecli_document.meta := m\<rparr>)
         then (Inr [(''result'', ''ok''), (''hash'', doc_hash py_hash cfg r e)],
               rows @ [row\<lparr>ecli_document.text := t, ecli_document.meta := m\<rparr>])
         else (Inl StoreError, rows))
    \<and> read_int (str_int (SubmitModel.year q)) = SubmitModel.year q
    \<and> (\<exists>d. canonical_decimal d \<and> read_decimal d = nat \<bar>SubmitModel.year q\<bar>
          \<and> str_int (SubmitModel.year q)
              = (if SubmitModel.year q < 0 then CHR ''-'' # d else d))
    \<and> (\<exists>j. body ''country'' = Some j \<and> str_validator P j = Some (SubmitModel.country q))
    \<and> (\<exists>j. body ''court'' = Some j \<and> str_validator P j = Some (SubmitModel.court q))
    \<and> (\<exists>j. body ''year'' = Some j \<and> int_validator P j = Some (SubmitModel.year q))
    \<and> (\<exists>j. body ''identifier'' = Some j
          \<and> str_validator P j = Some (SubmitModel.identifier q))"
proof -
  let ?y = "SubmitModel.year q"
  have digits: "canonical_decimal (str_nat (nat \<bar>?y\<bar>))
      \<and> read_decimal (str_nat (nat \<bar>?y\<bar>)) = nat \<bar>?y\<bar>"
    by (simp add: canonical_str_nat read_decimal_str_nat)
  have "str_int ?y
      = (if ?y < 0 then CHR ''-'' # str_nat (nat \<bar>?y\<bar>) else str_nat (nat \<bar>?y\<bar>))"
    by (simp add: str_int_def)
  with digits have c: "\<exists>d. canonical_decimal d \<and> read_decimal d = nat \<bar>?y\<bar>
          \<and> str_int ?y = (if ?y < 0 then CHR ''-'' # d else d)"
    by blast
  have b: "read_int (str_int ?y) = ?y"
  proof (cases "?y < 0")
    case True
    then show ?thesis by (simp add: read_int_def str_int_def read_decimal_str_nat)
  next
    case False
    obtain c t where ct: "str_nat (nat ?y) = c # t"
      using str_nat_nonempty [of "nat ?y"] by (cases "str_nat (nat ?y)") auto
    with str_nat_not_minus [of "nat ?y"] have "c \<noteq> CHR ''-''" by simp
    with False ct read_decimal_str_nat [of "nat ?y"] show ?thesis
      by (simp add: read_int_def str_int_def)
  qed
  from assms validate_SubmitModel_identity [OF assms(1)] b c show ?thesis
    by (simp add: post_create_def create_def execute_insert_def Let_def)
qed

theorem create_ecli_witness:
  "validate_SubmitModel exact_types submit_plain = Inr (plain_model ''Lorem Ipsum ...'')
   \<and> SubmitModel.user_key (plain_model ''Lorem Ipsum ...'') = ''test_key''
   \<and> post_create exact_types sample_table sample_hash default_config 41 submit_plain []
      = (Inr [(''result'', ''ok''), (''hash'', ''4282715678040815947'')],
         [plain_row ''Lorem Ipsum ...'' ''4282715678040815947''])
   \<and> ecli_document.ecli (plain_row ''Lorem Ipsum ...'' ''4282715678040815947'')
      = ''ECLI:BE:RSCE:2010:999.999''
   \<and> validate_SubmitModel exact_types (submit_plain(''year'' \<mapsto> JInt (- 44)))
      = Inr ((plain_model ''Lorem Ipsum ...'')\<lparr>SubmitModel.year := - 44\<rparr>)
   \<and> map ecli_document.ecli
        (snd (post_create exact_types sample_table sample_hash default_config 41
          (submit_plain(''year'' \<mapsto> JInt (- 44))) []))
      = [''ECLI:BE:RSCE:-44:999.999'']
   \<and> validate_SubmitModel exact_types submit_authorized
      = Inr (submit_model ''Lorem Ipsum ...'' ''test_key'')
   \<and> post_create exact_types sample_table sample_hash default_config 41 submit_authorized []
      = (Inl StoreError, [])"
proof -
  have p: "post_create exact_types sample_table sample_hash default_config 41 submit_plain []
      = (Inr [(''result'', ''ok''), (''hash'', ''4282715678040815947'')],
         [plain_row ''Lorem Ipsum ...'' ''4282715678040815947''])"
    by (simp add: post_create_def validate_submit_plain create_plain token_41)
  have v: "validate_SubmitModel exact_types (submit_plain(''year'' \<mapsto> JInt (- 44)))
      = Inr ((plain_model ''Lorem Ipsum ...'')\<lparr>SubmitModel.year := - 44\<rparr>)"
    by (simp add: validate_SubmitModel_def submit_plain_def submit_authorized_def
        submit_example_def exact_types_def Field_required_def Field_default_None_def
        PositiveInt_def errors_of_def submit_model_def plain_model_def)
  have n: "map ecli_document.ecli
        (snd (post_create exact_types sample_table sample_hash default_config 41
          (submit_plain(''year'' \<mapsto> JInt (- 44))) []))
      = [''ECLI:BE:RSCE:-44:999.999'']"
    by (simp add: post_create_def v create_def plain_model_def submit_model_def
        execute_insert_def Let_def sample_table_def doc_hash_no_NUL
        str_int_def str_nat_small str_nat_big digit_char_def)
  have a: "post_create exact_types sample_table sample_hash default_config 41
        submit_authorized [] = (Inl StoreError, [])"
    by (simp add: post_create_def validate_submit_authorized create_def submit_model_def
        execute_insert_def Let_def sample_table_def)
  from p v n a validate_submit_plain validate_submit_authorized
    create_ecli [where P = exact_types and body = submit_plain
      and q = "plain_model ''Lorem Ipsum ...''" and accepts = sample_table
      and py_hash = sample_hash and cfg = default_config and r = 41 and rows = "[]"]
    create_ecli [where P = exact_types and body = "submit_plain(''year'' \<mapsto> JInt (- 44))"
      and q = "(plain_model ''Lorem Ipsum ...'')\<lparr>SubmitModel.year := - 44\<rparr>"
      and accepts = sample_table
      and py_hash = sample_hash and cfg = default_config and r = 41 and rows = "[]"]
    create_ecli [where P = exact_types and body = submit_authorized
      and q = "submit_model ''Lorem Ipsum ...'' ''test_key''" and accepts = sample_table
      and py_hash = sample_hash and cfg = default_config and r = 41 and rows = "[]"]
  show ?thesis
    by (simp add: plain_model_def submit_model_def plain_row_def)
qed

text \<open>
  C3. For a body that validates, a user key other than \<open>test_key\<close> makes \<open>POST /create\<close>
  fail with an \<open>HTTPException\<close> of status 401 and leaves the store as it was, whatever
  the store would take: the insert is not reached. With the key \<open>test_key\<close> the gate
  passes: the answer is not the 401 but what the insert of the row built gives.
\<close>

theorem create_gate:
  assumes "validate_SubmitModel P body = Inr q"
  shows "(SubmitModel.user_key q \<noteq> ''test_key'' \<longrightarrow>
           post_create P accepts py_hash cfg r body rows
             = (Inl (HTTPException 401 ''bad user key''), rows)
           \<and> status_code (HTTPException 401 ''bad user key'') = 401)
       \<and> (SubmitModel.user_key q = ''test_key'' \<longrightarrow>
           (\<exists>row. ecli_document.ukey row = ''test_key''
              \<and> post_create P accepts py_hash cfg r body rows =
                (case execute_insert accepts rows row of
                   Inl error \<Rightarrow> (Inl error, rows)
                 | Inr rows' \<Rightarrow>
                     (Inr [(''result'', ''ok''), (''hash'', ecli_document.hash row)], rows')))
           \<and> fst (post_create P accepts py_hash cfg r body rows)
               \<noteq> Inl (HTTPException 401 ''bad user key''))"
proof -
  have "SubmitModel.user_key q = ''test_key'' \<Longrightarrow>
      fst (post_create P accepts py_hash cfg r body rows)
        \<noteq> Inl (HTTPException 401 ''bad user key'')"
    using assms
    by (simp add: post_create_def create_def execute_insert_def Let_def)
  moreover have "SubmitModel.user_key q = ''test_key'' \<Longrightarrow>
      (\<exists>row. ecli_document.ukey row = ''test_key''
              \<and> post_create P accepts py_hash cfg r body rows =
                (case execute_insert accepts rows row of
                   Inl error \<Rightarrow> (Inl error, rows)
                 | Inr rows' \<Rightarrow>
                     (Inr [(''result'', ''ok''), (''hash'', ecli_document.hash row)], rows')))"
    using assms
    by (simp add: post_create_def create_def Let_def)
      (metis ecli_document.select_convs(8) ecli_document.select_convs(9))
  moreover have "SubmitModel.user_key q \<noteq> ''test_key'' \<Longrightarrow>
      post_create P accepts py_hash cfg r body rows
             = (Inl (HTTPException 401 ''bad user key''), rows)"
    using assms by (simp add: post_create_def create_def)
  ultimately show ?thesis by (simp add: status_code_def)
qed

theorem create_gate_witness:
  "validate_SubmitModel exact_types submit_example
      = Inr (submit_model ''Lorem Ipsum ...'' ''OIJAS-OIQWE'')
   \<and> SubmitModel.user_key (submit_model ''Lorem Ipsum ...'' ''OIJAS-OIQWE'') \<noteq> ''test_key''
   \<and> post_create exact_types (\<lambda>rows row. True) sample_hash default_config 41 submit_example []
      = (Inl (HTTPException 401 ''bad user key''), [])
   \<and> validate_SubmitModel exact_types submit_plain = Inr (plain_model ''Lorem Ipsum ...'')
   \<and> SubmitModel.user_key (plain_model ''Lorem Ipsum ...'') = ''test_key''
   \<and> post_create exact_types sample_table sample_hash default_config 41 submit_plain []
      = (Inr [(''result'', ''ok''), (''hash'', ''4282715678040815947'')],
         [plain_row ''Lorem Ipsum ...'' ''4282715678040815947''])
   \<and> validate_SubmitModel exact_types submit_authorized
      = Inr (submit_model ''Lorem Ipsum ...'' ''test_key'')
   \<and> post_create exact_types sample_table sample_hash default_config 41 submit_authorized []
      = (Inl StoreError, [])
   \<and> status_code StoreError = 500"
proof -
  have p: "post_create exact_types sample_table sample_hash default_config 41 submit_plain []
      = (Inr [(''result'', ''ok''), (''hash'', ''4282715678040815947'')],
         [plain_row ''Lorem Ipsum ...'' ''4282715678040815947''])"
    by (simp add: post_create_def validate_submit_plain create_plain token_41)
  have a: "post_create exact_types sample_table sample_hash default_config 41
        submit_authorized [] = (Inl StoreError, [])"
    by (simp add: post_create_def validate_submit_authorized create_def submit_model_def
        execute_insert_def Let_def sample_table_def)
  from p a validate_submit_example validate_submit_plain validate_submit_authorized
    create_gate [where P = exact_types and body = submit_example
      and q = "submit_model ''Lorem Ipsum ...'' ''OIJAS-OIQWE''"
      and accepts = "\<lambda>rows row. True" and py_hash = sample_hash
      and cfg = default_config and r = 41 and rows = "[]"]
    create_gate [where P = exact_types and body = submit_plain
      and q = "plain_model ''Lorem Ipsum ...''" and accepts = sample_table
      and py_hash = sample_hash and cfg = default_config and r = 41 and rows = "[]"]
  show ?thesis
    by (simp add: submit_model_def plain_model_def status_code_def)
qed

section \<open>Lookup by token\<close>

lemma find_snoc:
  "List.find sel (xs @ [x]) =
     (case List.find sel xs of None \<Rightarrow> (if sel x then Some x else None) | Some y \<Rightarrow> Some y)"
  by (induction xs) simp_all

text \<open>
  Two submissions of the same identity fields, without meta, that draw the same nonce
  get the same token; both rows are stored, and the lookup by that token gives the row of
  the first submission, whose text is not the text submitted second.
\<close>

theorem gohash_after_create_counterexample:
  "create sample_table sample_hash default_config 41 (plain_model ''first text'') []
     = (Inr [(''result'', ''ok''), (''hash'', ''4282715678040815947'')],
        [plain_row ''first text'' ''4282715678040815947''])
   \<and> create sample_table sample_hash default_config 41 (plain_model ''second text'')
        [plain_row ''first text'' ''4282715678040815947'']
     = (Inr [(''result'', ''ok''), (''hash'', ''4282715678040815947'')],
        [plain_row ''first text'' ''4282715678040815947'',
         plain_row ''second text'' ''4282715678040815947''])
   \<and> fetchrow
        [plain_row ''first text'' ''4282715678040815947'',
         plain_row ''second text'' ''4282715678040815947'']
        (\<lambda>row. ecli_document.hash row = ''4282715678040815947'')
     = Some (plain_row ''first text'' ''4282715678040815947'')
   \<and> gohash ''4282715678040815947''
        [plain_row ''first text'' ''4282715678040815947'',
         plain_row ''second text'' ''4282715678040815947'']
     = Inr (html_page ''ECLI:BE:RSCE:2010:999.999'' ''first text'')
   \<and> html_page ''ECLI:BE:RSCE:2010:999.999'' ''first text''
     \<noteq> html_page ''ECLI:BE:RSCE:2010:999.999'' ''second text''"
proof -
  have "html_page ''ECLI:BE:RSCE:2010:999.999'' ''first text''
     \<noteq> html_page ''ECLI:BE:RSCE:2010:999.999'' ''second text''"
    by (simp add: html_page_def)
  then show ?thesis
    by (simp add: create_plain token_41 gohash_def fetchrow_def plain_row_def)
qed

text \<open>
  C2, amended. For a body that validates, when \<open>POST /create\<close> succeeds and returns a hash
  token on a store none of whose rows carries the token that this submission derives, the
  lookup by the returned token selects a row whose \<open>ecli\<close> is the ECLI built from the
  submitted identity fields and whose text is the submitted text, and \<open>GET /hash/{token}\<close>
  renders the page of these two.
\<close>

theorem gohash_after_create:
  assumes "validate_SubmitModel P body = Inr q"
    and "fst (post_create P accepts py_hash cfg r body rows) = Inr response"
    and "\<forall>row \<in> set rows. ecli_document.hash row \<noteq> doc_hash py_hash cfg r
          (''ECLI:'' @ SubmitModel.country q @ '':'' @ SubmitModel.court q @ '':''
             @ str_int (SubmitModel.year q) @ '':'' @ SubmitModel.identifier q)"
  shows "\<exists>token row.
      response = [(''result'', ''ok''), (''hash'', token)]
    \<and> fetchrow (snd (post_create P accepts py_hash cfg r body rows))
          (\<lambda>row. ecli_document.hash row = token) = Some row
    \<and> ecli_document.ecli row = ''ECLI:'' @ SubmitModel.country q @ '':'' @ SubmitModel.court q
          @ '':'' @ str_int (SubmitModel.year q) @ '':'' @ SubmitModel.identifier q
    \<and> ecli_document.text row = SubmitModel.text q
    \<and> gohash token (snd (post_create P accepts py_hash cfg r body rows))
        = Inr (html_page
            (''ECLI:'' @ SubmitModel.country q @ '':'' @ SubmitModel.court q
              @ '':'' @ str_int (SubmitModel.year q) @ '':'' @ SubmitModel.identifier q)
            (SubmitModel.text q))"
proof -
  let ?e = "''ECLI:'' @ SubmitModel.country q @ '':'' @ SubmitModel.court q
          @ '':'' @ str_int (SubmitModel.year q) @ '':'' @ SubmitModel.identifier q"
  let ?token = "doc_hash py_hash cfg r ?e"
  from assms(3) have none: "List.find (\<lambda>row. ecli_document.hash row = ?token) rows = None"
    by (auto simp: find_None_iff)
  from assms(1,2) none show ?thesis
    by (auto simp: post_create_def create_def execute_insert_def Let_def gohash_def
        fetchrow_def find_snoc split: if_splits)
qed

theorem gohash_after_create_witness:
  "validate_SubmitModel exact_types submit_plain = Inr (plain_model ''Lorem Ipsum ...'')
   \<and> create sample_table sample_hash default_config 42 (plain_model ''first text'') []
      = (Inr [(''result'', ''ok''), (''hash'', ''5412555749690408578'')],
         [plain_row ''first text'' ''5412555749690408578''])
   \<and> post_create exact_types sample_table sample_hash default_config 41 submit_plain
        [plain_row ''first text'' ''5412555749690408578'']
      = (Inr [(''result'', ''ok''), (''hash'', ''4282715678040815947'')],
         [plain_row ''first text'' ''5412555749690408578'',
          plain_row ''Lorem Ipsum ...'' ''4282715678040815947''])
   \<and> gohash ''4282715678040815947''
        [plain_row ''first text'' ''5412555749690408578'',
         plain_row ''Lorem Ipsum ...'' ''4282715678040815947'']
      = Inr (html_page ''ECLI:BE:RSCE:2010:999.999'' ''Lorem Ipsum ...'')"
proof -
  have p: "post_create exact_types sample_table sample_hash default_config 41 submit_plain
        [plain_row ''first text'' ''5412555749690408578'']
      = (Inr [(''result'', ''ok''), (''hash'', ''4282715678040815947'')],
         [plain_row ''first text'' ''5412555749690408578'',
          plain_row ''Lorem Ipsum ...'' ''4282715678040815947''])"
    by (simp add: post_create_def validate_submit_plain create_plain token_41)
  have f: "create sample_table sample_hash default_config 42 (plain_model ''first text'') []
      = (Inr [(''result'', ''ok''), (''hash'', ''5412555749690408578'')],
         [plain_row ''first text'' ''5412555749690408578''])"
    by (simp add: create_plain token_42)
  from p f validate_submit_plain
    gohash_after_create [where P = exact_types and body = submit_plain
        and q = "plain_model ''Lorem Ipsum ...''" and accepts = sample_table
        and py_hash = sample_hash and cfg = default_config and r = 41
        and rows = "[plain_row ''first text'' ''5412555749690408578'']"
        and response = "[(''result'', ''ok''), (''hash'', ''4282715678040815947'')]"]
  show ?thesis
    by (simp add: plain_model_def submit_model_def plain_row_def str_int_2010 token_41
        gohash_def fetchrow_def)
qed

text \<open>
  C5. With no row for the token, or for the ECLI, the render routes subscript \<open>None\<close>: the
  request ends in an uncaught \<open>TypeError\<close>, which the server turns into status 500.
\<close>

theorem render_without_row_raises:
  "gohash ''4282715678040815947'' [] = Inl TypeError
   \<and> ecli_route ''ECLI:BE:RSCE:2010:999.999'' [] = Inl TypeError
   \<and> gohash ''1''
        (snd (create sample_table sample_hash default_config 41 (plain_model ''first text'') []))
      = Inl TypeError
   \<and> ecli_route ''ECLI:BE:RSCE:2011:1''
        (snd (create sample_table sample_hash default_config 41 (plain_model ''first text'') []))
      = Inl TypeError
   \<and> status_code TypeError = 500"
  by (simp add: gohash_def ecli_route_def fetchrow_def status_code_def create_plain
      plain_row_def token_41)

section \<open>Tokens of repeated submissions\<close>

text \<open>
  The same body, without meta, submitted twice to one process, both runs drawing the
  nonce 42: both rows are stored and the two tokens are equal.
\<close>

theorem same_nonce_same_token_counterexample:
  "post_create exact_types sample_table sample_hash default_config 41 submit_plain []
      = (Inr [(''result'', ''ok''), (''hash'', ''4282715678040815947'')],
         [plain_row ''Lorem Ipsum ...'' ''4282715678040815947''])
   \<and> post_create exact_types sample_table sample_hash default_config 41 submit_plain
        [plain_row ''Lorem Ipsum ...'' ''4282715678040815947'']
      = (Inr [(''result'', ''ok''), (''hash'', ''4282715678040815947'')],
         [plain_row ''Lorem Ipsum ...'' ''4282715678040815947'',
          plain_row ''Lorem Ipsum ...'' ''4282715678040815947''])"
  by (simp add: post_create_def validate_submit_plain create_plain token_41)

text \<open>
  C7, amended. Two submissions with the same identity fields that one process (one key
  of the built-in hash, one salt) answers with a token each: the tokens differ exactly
  when the absolute values of the hashes of the two strings ECLI, nonce, salt differ; when
  both runs draw the same nonce the tokens are equal.
\<close>

theorem tokens_differ_iff:
  assumes "fst (create accepts py_hash cfg r1 q1 rows1) = Inr response1"
    and "fst (create accepts py_hash cfg r2 q2 rows2) = Inr response2"
    and "SubmitModel.country q2 = SubmitModel.country q1"
    and "SubmitModel.court q2 = SubmitModel.court q1"
    and "SubmitModel.year q2 = SubmitModel.year q1"
    and "SubmitModel.identifier q2 = SubmitModel.identifier q1"
  shows "\<exists>e t1 t2.
      e = ''ECLI:'' @ SubmitModel.country q1 @ '':'' @ SubmitModel.court q1 @ '':''
            @ str_int (SubmitModel.year q1) @ '':'' @ SubmitModel.identifier q1
    \<and> response1 = [(''result'', ''ok''), (''hash'', t1)]
    \<and> response2 = [(''result'', ''ok''), (''hash'', t2)]
    \<and> (t1 \<noteq> t2) =
        (\<bar>py_hash (e @ str_int (randint 1 80000 r1) @ salt cfg)\<bar>
          \<noteq> \<bar>py_hash (e @ str_int (randint 1 80000 r2) @ salt cfg)\<bar>)
    \<and> (randint 1 80000 r1 = randint 1 80000 r2 \<longrightarrow> t1 = t2)"
proof -
  let ?e = "''ECLI:'' @ SubmitModel.country q1 @ '':'' @ SubmitModel.court q1 @ '':''
            @ str_int (SubmitModel.year q1) @ '':'' @ SubmitModel.identifier q1"
  from assms(1) have 1: "response1 = [(''result'', ''ok''), (''hash'', doc_hash py_hash cfg r1 ?e)]"
    by (auto simp: create_def execute_insert_def Let_def split: if_splits)
  from assms(2-6) have 2:
    "response2 = [(''result'', ''ok''), (''hash'', doc_hash py_hash cfg r2 ?e)]"
    by (auto simp: create_def execute_insert_def Let_def split: if_splits)
  from 1 2 show ?thesis
    by (simp add: doc_hash_def Let_def str_int_abs_inj)
qed

theorem tokens_differ_iff_witness:
  "fst (create sample_table sample_hash default_config 41 (plain_model ''first text'') [])
      = Inr [(''result'', ''ok''), (''hash'', ''4282715678040815947'')]
   \<and> fst (create sample_table sample_hash default_config 42 (plain_model ''second text'') [])
      = Inr [(''result'', ''ok''), (''hash'', ''5412555749690408578'')]
   \<and> fst (create sample_table sample_hash default_config 41 (plain_model ''second text'') [])
      = Inr [(''result'', ''ok''), (''hash'', ''4282715678040815947'')]
   \<and> randint 1 80000 41 \<noteq> randint 1 80000 42
   \<and> SubmitModel.country (plain_model ''second text'')
      = SubmitModel.country (plain_model ''first text'')
   \<and> SubmitModel.court (plain_model ''second text'')
      = SubmitModel.court (plain_model ''first text'')
   \<and> SubmitModel.year (plain_model ''second text'')
      = SubmitModel.year (plain_model ''first text'')
   \<and> SubmitModel.identifier (plain_model ''second text'')
      = SubmitModel.identifier (plain_model ''first text'')"
proof -
  have a: "fst (create sample_table sample_hash default_config 41
        (plain_model ''first text'') [])
      = Inr [(''result'', ''ok''), (''hash'', ''4282715678040815947'')]"
    by (simp add: create_plain token_41)
  have b: "fst (create sample_table sample_hash default_config 42
        (plain_model ''second text'') [])
      = Inr [(''result'', ''ok''), (''hash'', ''5412555749690408578'')]"
    by (simp add: create_plain token_42)
  have c: "fst (create sample_table sample_hash default_config 41
        (plain_model ''second text'') [])
      = Inr [(''result'', ''ok''), (''hash'', ''4282715678040815947'')]"
    by (simp add: create_plain token_41)
  have i: "SubmitModel.country (plain_model ''second text'')
      = SubmitModel.country (plain_model ''first text'')
   \<and> SubmitModel.court (plain_model ''second text'')
      = SubmitModel.court (plain_model ''first text'')
   \<and> SubmitModel.year (plain_model ''second text'')
      = SubmitModel.year (plain_model ''first text'')
   \<and> SubmitModel.identifier (plain_model ''second text'')
      = SubmitModel.identifier (plain_model ''first text'')"
    by (simp add: plain_model_def submit_model_def)
  from a b c i
    tokens_differ_iff [OF a b]
    tokens_differ_iff [OF a c]
  show ?thesis by (simp add: randint_def)
qed

section \<open>Validation and the routes\<close>

lemma read_int_2010: "read_int ''2010'' = 2010"
  by (simp add: read_int_def read_decimal_def digit_value_def)

lemma str_int_123: "str_int 123 = ''123''"
  by (simp add: str_int_def str_nat_small str_nat_big digit_char_def)

text \<open>
  A string and a float given for the year, and a number given for the country, are not
  of the type of the field, and validation converts and accepts them; the request with
  the string for the year goes through the gate and is stored.
\<close>

theorem wrong_typed_accepted_counterexample:
  "validate_SubmitModel lax_types (submit_plain(''year'' \<mapsto> JStr ''2010''))
      = Inr (plain_model ''Lorem Ipsum ...'')
   \<and> validate_SubmitModel lax_types (submit_plain(''year'' \<mapsto> JFloat 4021 (- 1)))
      = Inr (plain_model ''Lorem Ipsum ...'')
   \<and> validate_SubmitModel lax_types (submit_plain(''country'' \<mapsto> JInt 123))
      = Inr ((plain_model ''Lorem Ipsum ...'')\<lparr>SubmitModel.country := ''123''\<rparr>)
   \<and> post_create lax_types sample_table sample_hash default_config 41
        (submit_plain(''year'' \<mapsto> JStr ''2010'')) []
      = (Inr [(''result'', ''ok''), (''hash'', ''4282715678040815947'')],
         [plain_row ''Lorem Ipsum ...'' ''4282715678040815947''])"
proof -
  have y: "validate_SubmitModel lax_types (submit_plain(''year'' \<mapsto> JStr ''2010''))
      = Inr (plain_model ''Lorem Ipsum ...'')"
    by (simp add: validate_SubmitModel_def submit_plain_def submit_authorized_def
        submit_example_def lax_types_def exact_types_def Field_required_def
        Field_default_None_def PositiveInt_def errors_of_def submit_model_def plain_model_def
        read_int_2010 str_int_2010)
  have f: "validate_SubmitModel lax_types (submit_plain(''year'' \<mapsto> JFloat 4021 (- 1)))
      = Inr (plain_model ''Lorem Ipsum ...'')"
    by (simp add: validate_SubmitModel_def submit_plain_def submit_authorized_def
        submit_example_def lax_types_def exact_types_def Field_required_def
        Field_default_None_def PositiveInt_def errors_of_def submit_model_def plain_model_def
        float_trunc_def)
  have c: "validate_SubmitModel lax_types (submit_plain(''country'' \<mapsto> JInt 123))
      = Inr ((plain_model ''Lorem Ipsum ...'')\<lparr>SubmitModel.country := ''123''\<rparr>)"
    by (simp add: validate_SubmitModel_def submit_plain_def submit_authorized_def
        submit_example_def lax_types_def exact_types_def Field_required_def
        Field_default_None_def PositiveInt_def errors_of_def submit_model_def plain_model_def
        str_int_123)
  show ?thesis
    by (simp add: y f c post_create_def create_plain token_41)
qed

text \<open>
  C4, amended. When a key of a Submit body is offending (a required key is absent, or
  the value under a key is refused by the validator of its field: a value it cannot
  convert to the type of the field, a timestamp or a meta that does not parse),
  validation fails with errors whose locations are exactly the offending keys,
  \<open>POST /create\<close> answers with this validation error whatever the store would take, and
  the store is as it was: the function \<open>create\<close> with its gate, its ECLI, its token and
  its insert is not run. The fields \<open>v\<close> and \<open>timestamp\<close> are read under their aliases
  \<open>_v\<close> and \<open>_timestamp\<close>.
\<close>

theorem submit_validation_rejects:
  assumes "offending P body k"
  shows "\<exists>errors. validate_SubmitModel P body = Inl errors
      \<and> post_create P accepts py_hash cfg r body rows = (Inl (RequestValidationError errors), rows)
      \<and> k \<in> fst ` set errors
      \<and> (\<forall>k'. (k' \<in> fst ` set errors) = offending P body k')"
  using offending_rejected [OF assms]
  by (simp add: post_create_def submit_errors_keys)

theorem submit_validation_rejects_witness:
  "offending exact_types submit_invalid ''text''
   \<and> post_create exact_types sample_table sample_hash default_config 41 submit_invalid []
      = (Inl (RequestValidationError
           [(''_timestamp'', Invalid), (''year'', Invalid), (''text'', Missing),
            (''meta'', Invalid)]), [])"
proof -
  have o: "offending exact_types submit_invalid ''text''"
    by (simp add: offending_def submit_invalid_def submit_required_def)
  have "validate_SubmitModel exact_types submit_invalid
      = Inl [(''_timestamp'', Invalid), (''year'', Invalid), (''text'', Missing),
            (''meta'', Invalid)]"
    by (simp add: validate_SubmitModel_def submit_invalid_def submit_example_def
        exact_types_def Field_required_def Field_default_None_def PositiveInt_def errors_of_def)
  with o submit_validation_rejects [OF o, where accepts = sample_table and py_hash = sample_hash
      and cfg = default_config and r = 41 and rows = "[]"]
  show ?thesis by simp
qed

text \<open>
  C10. The three models read the version and the timestamp under the keys \<open>_v\<close> and
  \<open>_timestamp\<close> only: what a body holds under \<open>v\<close> and \<open>timestamp\<close> changes nothing, and
  a body without \<open>_v\<close> (without \<open>_timestamp\<close>) fails validation with that key reported
  missing.
\<close>

theorem envelope_read_under_aliases:
  "validate_SubmitModel P (body(''v'' := x, ''timestamp'' := y)) = validate_SubmitModel P body
   \<and> validate_ReadModel P (body(''v'' := x, ''timestamp'' := y)) = validate_ReadModel P body
   \<and> validate_UpdateModel P (body(''v'' := x, ''timestamp'' := y)) = validate_UpdateModel P body
   \<and> (body ''_v'' = None \<longrightarrow>
        (\<exists>errors. validate_SubmitModel P body = Inl errors \<and> (''_v'', Missing) \<in> set errors)
      \<and> (\<exists>errors. validate_ReadModel P body = Inl errors \<and> (''_v'', Missing) \<in> set errors)
      \<and> (\<exists>errors. validate_UpdateModel P body = Inl errors \<and> (''_v'', Missing) \<in> set errors))
   \<and> (body ''_timestamp'' = None \<longrightarrow>
        (\<exists>errors. validate_SubmitModel P body = Inl errors
            \<and> (''_timestamp'', Missing) \<in> set errors)
      \<and> (\<exists>errors. validate_ReadModel P body = Inl errors
            \<and> (''_timestamp'', Missing) \<in> set errors)
      \<and> (\<exists>errors. validate_UpdateModel P body = Inl errors
            \<and> (''_timestamp'', Missing) \<in> set errors))"
proof -
  have s: "validate_SubmitModel P (body(''v'' := x, ''timestamp'' := y))
      = validate_SubmitModel P body"
    by (simp add: validate_SubmitModel_def Field_required_def Field_default_None_def)
  have r: "validate_ReadModel P (body(''v'' := x, ''timestamp'' := y))
      = validate_ReadModel P body"
    by (simp add: validate_ReadModel_def Field_required_def)
  have u: "validate_UpdateModel P (body(''v'' := x, ''timestamp'' := y))
      = validate_UpdateModel P body"
    by (simp add: validate_UpdateModel_def Field_required_def)
  have v: "body ''_v'' = None \<Longrightarrow>
        (\<exists>errors. validate_SubmitModel P body = Inl errors \<and> (''_v'', Missing) \<in> set errors)
      \<and> (\<exists>errors. validate_ReadModel P body = Inl errors \<and> (''_v'', Missing) \<in> set errors)
      \<and> (\<exists>errors. validate_UpdateModel P body = Inl errors \<and> (''_v'', Missing) \<in> set errors)"
    by (simp add: validate_SubmitModel_def validate_ReadModel_def validate_UpdateModel_def
        Field_required_missing Let_def)
  have t: "body ''_timestamp'' = None \<Longrightarrow>
        (\<exists>errors. validate_SubmitModel P body = Inl errors
            \<and> (''_timestamp'', Missing) \<in> set errors)
      \<and> (\<exists>errors. validate_ReadModel P body = Inl errors
            \<and> (''_timestamp'', Missing) \<in> set errors)
      \<and> (\<exists>errors. validate_UpdateModel P body = Inl errors
            \<and> (''_timestamp'', Missing) \<in> set errors)"
    by (simp add: validate_SubmitModel_def validate_ReadModel_def validate_UpdateModel_def
        Field_required_missing Let_def)
  from s r u v t show ?thesis by blast
qed

theorem envelope_read_under_aliases_witness:
  "submit_unaliased ''v'' = Some (JInt 1) \<and> submit_unaliased ''_v'' = None
   \<and> submit_unaliased ''timestamp'' = Some (JInt 1239120938)
   \<and> submit_unaliased ''_timestamp'' = None
   \<and> validate_SubmitModel exact_types submit_unaliased
      = Inl [(''_v'', Missing), (''_timestamp'', Missing)]
   \<and> validate_ReadModel exact_types read_unaliased
      = Inl [(''_v'', Missing), (''_timestamp'', Missing)]
   \<and> validate_UpdateModel exact_types read_unaliased
      = Inl [(''_v'', Missing), (''_timestamp'', Missing)]"
proof -
  have s: "validate_SubmitModel exact_types submit_unaliased
      = Inl [(''_v'', Missing), (''_timestamp'', Missing)]"
    by (simp add: validate_SubmitModel_def submit_unaliased_def exact_types_def
        Field_required_def Field_default_None_def PositiveInt_def errors_of_def)
  have r: "validate_ReadModel exact_types read_unaliased
      = Inl [(''_v'', Missing), (''_timestamp'', Missing)]"
    by (simp add: validate_ReadModel_def read_unaliased_def exact_types_def
        Field_required_def PositiveInt_def errors_of_def)
  have u: "validate_UpdateModel exact_types read_unaliased
      = Inl [(''_v'', Missing), (''_timestamp'', Missing)]"
    by (simp add: validate_UpdateModel_def read_unaliased_def exact_types_def
        Field_required_def PositiveInt_def errors_of_def)
  have k: "submit_unaliased ''v'' = Some (JInt 1) \<and> submit_unaliased ''_v'' = None
   \<and> submit_unaliased ''timestamp'' = Some (JInt 1239120938)
   \<and> submit_unaliased ''_timestamp'' = None"
    by (simp add: submit_unaliased_def)
  from s r u k
    envelope_read_under_aliases [of exact_types submit_unaliased None None]
  show ?thesis by simp
qed

text \<open>
  The version 2 is not the supported version, and bodies with \<open>_v = 2\<close> validate for all
  three models; the routes then answer, \<open>POST /create\<close> for the body without meta.
\<close>

theorem version_other_than_supported_counterexample:
  "validate_SubmitModel exact_types (submit_authorized(''_v'' \<mapsto> JInt 2))
      = Inr ((submit_model ''Lorem Ipsum ...'' ''test_key'')\<lparr>SubmitModel.v := 2\<rparr>)
   \<and> validate_ReadModel exact_types (read_example(''_v'' \<mapsto> JInt 2))
      = Inr \<lparr>ReadModel.v = 2, ReadModel.timestamp = Datetime 1239120938,
             ReadModel.ecli = ''ECLI:BE:RSCE:2020:999.999''\<rparr>
   \<and> validate_UpdateModel exact_types (read_example(''_v'' \<mapsto> JInt 2))
      = Inr \<lparr>UpdateModel.v = 2, UpdateModel.timestamp = Datetime 1239120938,
             UpdateModel.ecli = ''ECLI:BE:RSCE:2020:999.999''\<rparr>
   \<and> (2 :: int) \<noteq> VERSION
   \<and> post_create exact_types sample_table sample_hash default_config 41
        (submit_plain(''_v'' \<mapsto> JInt 2)) []
      = (Inr [(''result'', ''ok''), (''hash'', ''4282715678040815947'')],
         [plain_row ''Lorem Ipsum ...'' ''4282715678040815947''])
   \<and> get_read exact_types (read_example(''_v'' \<mapsto> JInt 2)) = Inr ''ok''
   \<and> get_update exact_types (read_example(''_v'' \<mapsto> JInt 2)) = Inr ''ok''"
proof -
  have s: "validate_SubmitModel exact_types (submit_authorized(''_v'' \<mapsto> JInt 2))
      = Inr ((submit_model ''Lorem Ipsum ...'' ''test_key'')\<lparr>SubmitModel.v := 2\<rparr>)"
    by (simp add: validate_SubmitModel_def submit_authorized_def submit_example_def
        exact_types_def Field_required_def Field_default_None_def PositiveInt_def errors_of_def
        submit_model_def)
  have r: "validate_ReadModel exact_types (read_example(''_v'' \<mapsto> JInt 2))
      = Inr \<lparr>ReadModel.v = 2, ReadModel.timestamp = Datetime 1239120938,
             ReadModel.ecli = ''ECLI:BE:RSCE:2020:999.999''\<rparr>"
    by (simp add: validate_ReadModel_def read_example_def exact_types_def
        Field_required_def PositiveInt_def errors_of_def)
  have u: "validate_UpdateModel exact_types (read_example(''_v'' \<mapsto> JInt 2))
      = Inr \<lparr>UpdateModel.v = 2, UpdateModel.timestamp = Datetime 1239120938,
             UpdateModel.ecli = ''ECLI:BE:RSCE:2020:999.999''\<rparr>"
    by (simp add: validate_UpdateModel_def read_example_def exact_types_def
        Field_required_def PositiveInt_def errors_of_def)
  have p: "validate_SubmitModel exact_types (submit_plain(''_v'' \<mapsto> JInt 2))
      = Inr ((plain_model ''Lorem Ipsum ...'')\<lparr>SubmitModel.v := 2\<rparr>)"
    by (simp add: validate_SubmitModel_def submit_plain_def submit_authorized_def
        submit_example_def exact_types_def Field_required_def Field_default_None_def
        PositiveInt_def errors_of_def submit_model_def plain_model_def)
  have c: "post_create exact_types sample_table sample_hash default_config 41
        (submit_plain(''_v'' \<mapsto> JInt 2)) []
      = (Inr [(''result'', ''ok''), (''hash'', ''4282715678040815947'')],
         [plain_row ''Lorem Ipsum ...'' ''4282715678040815947''])"
    by (simp add: post_create_def p create_def plain_model_def submit_model_def
        execute_insert_def Let_def str_int_2010 token_41 sample_table_def plain_row_def)
  show ?thesis
    by (simp add: s r u c get_read_def get_update_def read_def update_def VERSION_def)
qed

text \<open>
  C8, amended. For a Submit, Read or Update body, validation gives a model only when the
  value under \<open>_v\<close> validates as an integer greater than 0, which is then the \<open>v\<close> of the
  model; the value is not compared with \<open>VERSION\<close>.
\<close>

theorem version_must_be_positive:
  "(validate_SubmitModel P body = Inr qs \<longrightarrow>
      (\<exists>j. body ''_v'' = Some j \<and> int_validator P j = Some (SubmitModel.v qs))
      \<and> 0 < SubmitModel.v qs)
   \<and> (validate_ReadModel P body = Inr qr \<longrightarrow>
      (\<exists>j. body ''_v'' = Some j \<and> int_validator P j = Some (ReadModel.v qr))
      \<and> 0 < ReadModel.v qr)
   \<and> (validate_UpdateModel P body = Inr qu \<longrightarrow>
      (\<exists>j. body ''_v'' = Some j \<and> int_validator P j = Some (UpdateModel.v qu))
      \<and> 0 < UpdateModel.v qu)"
  using validate_SubmitModel_v [of P body qs] validate_ReadModel_v [of P body qr]
    validate_UpdateModel_v [of P body qu]
  by (auto dest: PositiveInt_Some)

theorem version_must_be_positive_witness:
  "validate_ReadModel exact_types (read_example(''_v'' \<mapsto> JInt 2))
      = Inr \<lparr>ReadModel.v = 2, ReadModel.timestamp = Datetime 1239120938,
             ReadModel.ecli = ''ECLI:BE:RSCE:2020:999.999''\<rparr>
   \<and> validate_UpdateModel exact_types (read_example(''_v'' \<mapsto> JInt 2))
      = Inr \<lparr>UpdateModel.v = 2, UpdateModel.timestamp = Datetime 1239120938,
             UpdateModel.ecli = ''ECLI:BE:RSCE:2020:999.999''\<rparr>
   \<and> validate_SubmitModel exact_types (submit_authorized(''_v'' \<mapsto> JInt 2))
      = Inr ((submit_model ''Lorem Ipsum ...'' ''test_key'')\<lparr>SubmitModel.v := 2\<rparr>)
   \<and> int_validator exact_types (JInt 2) = Some 2 \<and> (0 :: int) < 2
   \<and> validate_ReadModel exact_types (read_example(''_v'' \<mapsto> JInt 0))
      = Inl [(''_v'', Invalid)]"
proof -
  have s: "validate_SubmitModel exact_types (submit_authorized(''_v'' \<mapsto> JInt 2))
      = Inr ((submit_model ''Lorem Ipsum ...'' ''test_key'')\<lparr>SubmitModel.v := 2\<rparr>)"
    by (simp add: validate_SubmitModel_def submit_authorized_def submit_example_def
        exact_types_def Field_required_def Field_default_None_def PositiveInt_def errors_of_def
        submit_model_def)
  have r: "validate_ReadModel exact_types (read_example(''_v'' \<mapsto> JInt 2))
      = Inr \<lparr>ReadModel.v = 2, ReadModel.timestamp = Datetime 1239120938,
             ReadModel.ecli = ''ECLI:BE:RSCE:2020:999.999''\<rparr>"
    by (simp add: validate_ReadModel_def read_example_def exact_types_def
        Field_required_def PositiveInt_def errors_of_def)
  have u: "validate_UpdateModel exact_types (read_example(''_v'' \<mapsto> JInt 2))
      = Inr \<lparr>UpdateModel.v = 2, UpdateModel.timestamp = Datetime 1239120938,
             UpdateModel.ecli = ''ECLI:BE:RSCE:2020:999.999''\<rparr>"
    by (simp add: validate_UpdateModel_def read_example_def exact_types_def
        Field_required_def PositiveInt_def errors_of_def)
  have z: "validate_ReadModel exact_types (read_example(''_v'' \<mapsto> JInt 0))
      = Inl [(''_v'', Invalid)]"
    by (simp add: validate_ReadModel_def read_example_def exact_types_def
        Field_required_def PositiveInt_def errors_of_def)
  from s r u z
    version_must_be_positive [of exact_types "read_example(''_v'' \<mapsto> JInt 2)" _
      "\<lparr>ReadModel.v = 2, ReadModel.timestamp = Datetime 1239120938,
             ReadModel.ecli = ''ECLI:BE:RSCE:2020:999.999''\<rparr>"
      "\<lparr>UpdateModel.v = 2, UpdateModel.timestamp = Datetime 1239120938,
             UpdateModel.ecli = ''ECLI:BE:RSCE:2020:999.999''\<rparr>"]
    version_must_be_positive [of exact_types "submit_authorized(''_v'' \<mapsto> JInt 2)"
      "(submit_model ''Lorem Ipsum ...'' ''test_key'')\<lparr>SubmitModel.v := 2\<rparr>"]
  show ?thesis by (simp add: exact_types_def)
qed

text \<open>
  A body whose country, court, identifier and text are empty strings validates, and
  without meta \<open>POST /create\<close> stores it; so does a body with an empty user key validate.
\<close>

theorem empty_strings_accepted_counterexample:
  "validate_SubmitModel exact_types submit_empty_strings
      = Inr \<lparr>SubmitModel.v = 1, SubmitModel.timestamp = Datetime 1239120938,
             SubmitModel.country = '''', SubmitModel.court = '''', SubmitModel.year = 2010,
             SubmitModel.identifier = '''', SubmitModel.text = '''',
             SubmitModel.user_key = ''test_key'', SubmitModel.meta = Some (JObj [])\<rparr>
   \<and> map ecli_document.ecli
        (snd (post_create exact_types sample_table sample_hash default_config 41
          (submit_empty_strings(''meta'' := None)) []))
      = [''ECLI:::2010:'']
   \<and> validate_SubmitModel exact_types (submit_example(''user_key'' \<mapsto> JStr ''''))
      = Inr (submit_model ''Lorem Ipsum ...'' '''')"
proof -
  have s: "validate_SubmitModel exact_types submit_empty_strings
      = Inr \<lparr>SubmitModel.v = 1, SubmitModel.timestamp = Datetime 1239120938,
             SubmitModel.country = '''', SubmitModel.court = '''', SubmitModel.year = 2010,
             SubmitModel.identifier = '''', SubmitModel.text = '''',
             SubmitModel.user_key = ''test_key'', SubmitModel.meta = Some (JObj [])\<rparr>"
    by (simp add: validate_SubmitModel_def submit_empty_strings_def submit_authorized_def
        submit_example_def exact_types_def Field_required_def Field_default_None_def
        PositiveInt_def errors_of_def)
  have u: "validate_SubmitModel exact_types (submit_example(''user_key'' \<mapsto> JStr ''''))
      = Inr (submit_model ''Lorem Ipsum ...'' '''')"
    by (simp add: validate_SubmitModel_def submit_example_def exact_types_def
        Field_required_def Field_default_None_def PositiveInt_def errors_of_def submit_model_def)
  have n: "validate_SubmitModel exact_types (submit_empty_strings(''meta'' := None))
      = Inr \<lparr>SubmitModel.v = 1, SubmitModel.timestamp = Datetime 1239120938,
             SubmitModel.country = '''', SubmitModel.court = '''', SubmitModel.year = 2010,
             SubmitModel.identifier = '''', SubmitModel.text = '''',
             SubmitModel.user_key = ''test_key'', SubmitModel.meta = None\<rparr>"
    by (simp add: validate_SubmitModel_def submit_empty_strings_def submit_authorized_def
        submit_example_def exact_types_def Field_required_def Field_default_None_def
        PositiveInt_def errors_of_def)
  have p: "map ecli_document.ecli
        (snd (post_create exact_types sample_table sample_hash default_config 41
          (submit_empty_strings(''meta'' := None)) []))
      = [''ECLI:::2010:'']"
    by (simp add: post_create_def n create_def execute_insert_def Let_def str_int_2010
        sample_table_def doc_hash_no_NUL)
  show ?thesis
    by (simp add: s u p)
qed

text \<open>
  C9, amended. For each of the string fields country, court, identifier, text and
  user_key of a Submit body: validation fails, naming the key, when the key is absent or
  its value is refused by the string validator; and, the string validator accepting the
  empty string, a body that validates still validates when the field is replaced by the
  empty string, into the same model with that field empty.
\<close>

theorem submit_strings_may_be_empty:
  assumes "k \<in> set [''country'', ''court'', ''identifier'', ''text'', ''user_key'']"
  shows "(body k = None \<or> (\<exists>j. body k = Some j \<and> str_validator P j = None) \<longrightarrow>
           (\<exists>errors. validate_SubmitModel P body = Inl errors \<and> k \<in> fst ` set errors))
       \<and> (validate_SubmitModel P body = Inr q \<and> str_validator P (JStr '''') = Some '''' \<longrightarrow>
           validate_SubmitModel P (body(k \<mapsto> JStr '''')) = Inr (emptied k q))"
  using offending_rejected [OF string_key_offending [OF assms], where P = P and body = body]
    emptying_keeps_valid [OF _ _ assms, where P = P and body = body and q = q]
  by blast

theorem submit_strings_may_be_empty_witness:
  "''country'' \<in> set [''country'', ''court'', ''identifier'', ''text'', ''user_key'']
   \<and> validate_SubmitModel exact_types submit_authorized
      = Inr (submit_model ''Lorem Ipsum ...'' ''test_key'')
   \<and> str_validator exact_types (JStr '''') = Some ''''
   \<and> validate_SubmitModel exact_types (submit_authorized(''country'' \<mapsto> JStr ''''))
      = Inr ((submit_model ''Lorem Ipsum ...'' ''test_key'')\<lparr>SubmitModel.country := ''''\<rparr>)
   \<and> ''text'' \<in> set [''country'', ''court'', ''identifier'', ''text'', ''user_key'']
   \<and> submit_invalid ''text'' = None
   \<and> validate_SubmitModel exact_types submit_invalid
      = Inl [(''_timestamp'', Invalid), (''year'', Invalid), (''text'', Missing),
            (''meta'', Invalid)]"
proof -
  have c: "''country'' \<in> set [''country'', ''court'', ''identifier'', ''text'', ''user_key'']"
    by simp
  have t: "''text'' \<in> set [''country'', ''court'', ''identifier'', ''text'', ''user_key'']"
    by simp
  have e: "str_validator exact_types (JStr '''') = Some ''''"
    by (simp add: exact_types_def)
  have i: "validate_SubmitModel exact_types submit_invalid
      = Inl [(''_timestamp'', Invalid), (''year'', Invalid), (''text'', Missing),
            (''meta'', Invalid)]"
    by (simp add: validate_SubmitModel_def submit_invalid_def submit_example_def
        exact_types_def Field_required_def Field_default_None_def PositiveInt_def errors_of_def)
  have m: "submit_invalid ''text'' = None"
    by (simp add: submit_invalid_def)
  from c t e i m validate_submit_authorized
    submit_strings_may_be_empty [OF c, where body = submit_authorized and P = exact_types
      and q = "submit_model ''Lorem Ipsum ...'' ''test_key''"]
    submit_strings_may_be_empty [OF t, where body = submit_invalid and P = exact_types]
  show ?thesis by (simp add: emptied_def)
qed

end
